theory Spec2Isabelle
  imports Complex_Main
begin

section \<open>Values, requests and responses\<close>

text \<open>
  JSON values as the handlers exchange them with clients and with the document store.
  \<open>JDate\<close> is a date as milliseconds since the epoch; numbers are rationals (every
  double is one; the rounding of floating-point products is not modelled).
\<close>

datatype json =
    JNull
  | JBool bool
  | JNum rat
  | JStr string
  | JDate int
  | JArr "json list"
  | JObj "(string \<times> json) list"

type_synonym obj = "(string \<times> json) list"

text \<open>\<open>enum UserRole\<close> of \<open>models/User\<close> and the strings it stands for.\<close>

datatype UserRole = FARMER | VENDOR | NGO | ADMIN

fun roleName :: "UserRole \<Rightarrow> string" where
  "roleName FARMER = ''farmer''"
| "roleName VENDOR = ''vendor''"
| "roleName NGO = ''ngo''"
| "roleName ADMIN = ''admin''"

text \<open>The payload of a token, which is also what \<open>AuthRequest.user\<close> holds.\<close>

record identity =
  ident :: string
  role :: UserRole

text \<open>
  An Express request, as far as the handlers read it: the two headers, the route
  parameters, the parsed query string, the parsed body (its type depends on the
  route) and \<open>req.user\<close>, which only \<open>protect\<close> writes. The query is the object
  Express makes of the query string: a parameter given once is a string, a parameter
  given several times is an array, a bracketed one is an object.
\<close>

record 'b request =
  authorization :: "string option"
  user_id :: "string option"
  params :: "(string \<times> string) list"
  query :: obj
  body :: 'b
  user :: "identity option"

record response =
  status :: nat
  payload :: json

definition message :: "string \<Rightarrow> json" where
  "message m = JObj [(''message'', JStr m)]"

definition reply :: "nat \<Rightarrow> json \<Rightarrow> response" where
  "reply c j = \<lparr>status = c, payload = j\<rparr>"

text \<open>A middleware either answers (and the chain stops) or calls \<open>next()\<close>.\<close>

datatype 'a step = Respond response | Next 'a

section \<open>The schema types of the store\<close>

text \<open>
  The types a path of a schema can have in \<open>models/\<close>: a string (trimmed or not), a
  number, a date, a boolean, an ObjectId, an array of one of these, an array of
  subdocuments (named by its path), and a nested object with paths of its own.
\<close>

datatype stype =
    SString bool
  | SNumber
  | SDate
  | SBoolean
  | SObjectId
  | SArray stype
  | SDocs string
  | SNested "(string \<times> stype) list"

type_synonym schema = "(string \<times> stype) list"

text \<open>
  What a dotted key of an update does to the top-level field it starts with: the store
  refuses the update, leaves the field as it is, or gives it a new value.
\<close>

datatype deep = Refused | Unchanged | Becomes json

section \<open>External collaborators\<close>

text \<open>
  What the repository calls and does not define. Every theorem below holds whatever
  these functions are.
  \<^item> \<open>jwt.verify\<close> and \<open>jwt.sign\<close> with the configured secret (\<open>None\<close> is a thrown
    verification error), \<open>bcrypt\<close>, \<open>mongoose.Types.ObjectId.isValid\<close>.
  \<^item> \<open>String.prototype.trim\<close>, the store's cast of a string to an ObjectId
    (\<open>None\<close> is a cast error; the result is the id as the store prints it),
    \<open>Date\<close> parsing (\<open>None\<close> is an invalid date), and \<open>coerce\<close>, the store's
    cast of a value to a schema type in the cases that \<open>cast\<close> below does not spell
    out (a numeric string to a number, a number to a string or to a date, a value that
    is no object to a nested path, ...).
  \<^item> What the store makes of a filter value that is not a string (an array, an
    operator object): the condition it tests, or \<open>None\<close> for a cast error. For
    \<open>User.findOne\<close> it is the user found.
  \<^item> In an update: whether a dotted key that points below a single value is refused
    (otherwise it is dropped), what the dotted keys below a nested object or an array
    make of that field, given the plain key's value and the stored one, and what a
    \<open>createdAt\<close> key does to the creation stamp.
  \<^item> On a loaded document: what the assignment of a key that is no schema path does
    (\<open>None\<close>: the request ends in the handler's catch), whether \<open>save()\<close> finds
    the document modified, and the version key it writes (\<open>None\<close>: as before).
  \<^item> The schema validation of a new user, and the engine's \<open>Array.prototype.sort\<close>
    under the coin-flip comparator of \<open>getBestMarkets\<close> (given the draws not yet
    consumed, it returns the permutation and how many draws the comparator took).
\<close>

record libs =
  jwt_verify :: "string \<Rightarrow> identity option"
  jwt_sign :: "obj \<Rightarrow> string"
  bcrypt_hash :: "string \<Rightarrow> string"
  isValidObjectId :: "string \<Rightarrow> bool"
  str_trim :: "string \<Rightarrow> string"
  castObjectId :: "string \<Rightarrow> string option"
  parseDate :: "string \<Rightarrow> int option"
  coerce :: "stype \<Rightarrow> json \<Rightarrow> json option"
  filterOf :: "string list \<Rightarrow> json \<Rightarrow> (json option \<Rightarrow> bool) option"
  otherEmailFilter :: "json option \<Rightarrow> obj list \<Rightarrow> obj option"
  belowLeaf :: "string \<Rightarrow> json \<Rightarrow> bool"
  deepSet :: "string \<Rightarrow> json option \<Rightarrow> obj \<Rightarrow> json option \<Rightarrow> deep"
  setCreatedAt :: "json \<Rightarrow> json option \<Rightarrow> deep"
  assignStray :: "string \<Rightarrow> json \<Rightarrow> obj \<Rightarrow> obj option"
  isModified :: "obj \<Rightarrow> obj \<Rightarrow> bool"
  nextVersion :: "obj \<Rightarrow> obj \<Rightarrow> json option"
  userOk :: "obj \<Rightarrow> bool"
  randomSort :: "(nat \<Rightarrow> rat) \<Rightarrow> string list \<Rightarrow> string list \<times> nat"

text \<open>
  What changes from one run to the next: the clock, the successive results of
  \<open>Math.random()\<close> (the n-th call of a request returns \<open>rand n\<close>), the ObjectId the
  driver generates for a created document, and the subdocuments the store builds for
  an array of subdocuments, each with a generated \<open>_id\<close> (\<open>None\<close> when the value
  does not cast or validate).
\<close>

record env =
  now :: int
  rand :: "nat \<Rightarrow> rat"
  newId :: string
  subdocuments :: "string \<Rightarrow> json \<Rightarrow> json option"

section \<open>String helpers\<close>

definition startsWith :: "string \<Rightarrow> string \<Rightarrow> bool" where
  "startsWith s p = (take (length p) s = p)"

text \<open>\<open>s.split(c)\<close>: the pieces between the separators, empty pieces included.\<close>

fun split_str :: "char \<Rightarrow> string \<Rightarrow> string list" where
  "split_str c [] = [[]]"
| "split_str c (x # xs) =
     (if x = c then [] # split_str c xs
      else (case split_str c xs of
              [] \<Rightarrow> [[x]]
            | w # ws \<Rightarrow> (x # w) # ws))"

text \<open>\<open>xs[i]\<close>, which is \<open>undefined\<close> out of range.\<close>

definition at_index :: "'a list \<Rightarrow> nat \<Rightarrow> 'a option" where
  "at_index xs i = (if i < length xs then Some (xs ! i) else None)"

fun join :: "string \<Rightarrow> string list \<Rightarrow> string" where
  "join sep [] = []"
| "join sep [x] = x"
| "join sep (x # y # ys) = x @ sep @ join sep (y # ys)"

section \<open>Authentication and role middleware\<close>

text \<open>
  The token \<open>protect\<close> reads: the second space-separated piece of the Authorization
  header, when the header is there and starts with \<open>Bearer\<close>.
\<close>

definition headerToken :: "string \<Rightarrow> string option" where
  "headerToken a = at_index (split_str CHR '' '' a) 1"

definition protect :: "libs \<Rightarrow> 'b request \<Rightarrow> 'b request step" where
  "protect L req =
     (let token = (case authorization req of
                     None \<Rightarrow> None
                   | Some a \<Rightarrow> if a \<noteq> [] \<and> startsWith a ''Bearer'' then headerToken a else None)
      in case token of
           None \<Rightarrow> Respond (reply 401 (message ''Not authorized, no token provided''))
         | Some t \<Rightarrow>
             if t = [] then Respond (reply 401 (message ''Not authorized, no token provided''))
             else (case jwt_verify L t of
                     Some decoded \<Rightarrow>
                       Next (req\<lparr>user := Some \<lparr>ident = ident decoded, role = role decoded\<rparr>\<rparr>)
                   | None \<Rightarrow> Respond (reply 401 (message ''Not authorized, invalid token''))))"

text \<open>\<open>authorize\<close> takes one role or an array of roles.\<close>

datatype roles = One UserRole | Many "UserRole list"

fun allowedRoles :: "roles \<Rightarrow> UserRole list" where
  "allowedRoles (One r) = [r]"
| "allowedRoles (Many rs) = rs"

definition authorize :: "roles \<Rightarrow> 'b request \<Rightarrow> 'b request step" where
  "authorize rs req =
     (case user req of
        None \<Rightarrow> Respond (reply 401 (message ''Not authorized, no user found''))
      | Some u \<Rightarrow>
          if role u \<notin> set (allowedRoles rs)
          then Respond (reply 403 (message (''Access denied. Required role: '' @
                 join '' or '' (map roleName (allowedRoles rs)))))
          else Next req)"

definition farmerOnly :: "'b request \<Rightarrow> 'b request step" where
  "farmerOnly = authorize (One FARMER)"

definition vendorOnly :: "'b request \<Rightarrow> 'b request step" where
  "vendorOnly = authorize (One VENDOR)"

definition ngoOnly :: "'b request \<Rightarrow> 'b request step" where
  "ngoOnly = authorize (One NGO)"

definition adminOnly :: "'b request \<Rightarrow> 'b request step" where
  "adminOnly = authorize (One ADMIN)"

text \<open>
  A route behind middleware: \<open>router.get(path, protect, handler)\<close> and
  \<open>router.use(protect, gate)\<close> followed by the handler. A handler maps the request
  and the stored state to a response and the new state; a middleware that answers
  leaves the state alone and the handler is never reached.
\<close>

definition chain ::
  "('b request \<Rightarrow> 'b request step) \<Rightarrow> ('b request \<Rightarrow> 's \<Rightarrow> response \<times> 's) \<Rightarrow>
   'b request \<Rightarrow> 's \<Rightarrow> response \<times> 's" where
  "chain m h req s = (case m req of Respond x \<Rightarrow> (x, s) | Next req' \<Rightarrow> h req' s)"

definition protected ::
  "libs \<Rightarrow> ('b request \<Rightarrow> 's \<Rightarrow> response \<times> 's) \<Rightarrow> 'b request \<Rightarrow> 's \<Rightarrow> response \<times> 's" where
  "protected L h = chain (protect L) h"

definition gated ::
  "libs \<Rightarrow> ('b request \<Rightarrow> 'b request step) \<Rightarrow> ('b request \<Rightarrow> 's \<Rightarrow> response \<times> 's) \<Rightarrow>
   'b request \<Rightarrow> 's \<Rightarrow> response \<times> 's" where
  "gated L gate h = chain (protect L) (chain gate h)"

section \<open>Documents and the stored state\<close>

text \<open>
  A document is an object: its fields in order, each key once. \<open>field\<close> reads a
  property (\<open>None\<close> is \<open>undefined\<close>), \<open>setField\<close> assigns one, and
  \<open>defined\<close> drops the properties that are \<open>undefined\<close>, which neither the store
  nor \<open>res.json\<close> keeps. An ObjectId is the string the store prints for it.
\<close>

definition field :: "obj \<Rightarrow> string \<Rightarrow> json option" where
  "field d k = map_of d k"

fun setField :: "string \<Rightarrow> json \<Rightarrow> obj \<Rightarrow> obj" where
  "setField k v [] = [(k, v)]"
| "setField k v ((k', v') # d) = (if k' = k then (k, v) # d else (k', v') # setField k v d)"

fun defined :: "(string \<times> json option) list \<Rightarrow> obj" where
  "defined [] = []"
| "defined ((k, None) # kvs) = defined kvs"
| "defined ((k, Some v) # kvs) = (k, v) # defined kvs"

text \<open>JavaScript's truthiness, for \<open>x || y\<close> and \<open>!x\<close> on values of the body.\<close>

fun truthy :: "json \<Rightarrow> bool" where
  "truthy JNull = False"
| "truthy (JBool b) = b"
| "truthy (JNum n) = (n \<noteq> 0)"
| "truthy (JStr s) = (s \<noteq> [])"
| "truthy (JDate d) = True"
| "truthy (JArr xs) = True"
| "truthy (JObj kvs) = True"

text \<open>The collections of the document store, each in insertion order.\<close>

record db =
  users :: "obj list"
  farms :: "obj list"
  products :: "obj list"
  predictions :: "obj list"
  analytics :: "obj list"

definition hasId :: "string \<Rightarrow> obj \<Rightarrow> bool" where
  "hasId i d = (field d ''_id'' = Some (JStr i))"

definition findById :: "obj list \<Rightarrow> string \<Rightarrow> obj option" where
  "findById ds i = find (hasId i) ds"

text \<open>A dotted path of a query filter, such as \<open>location.country\<close>.\<close>

fun atPath :: "obj \<Rightarrow> string list \<Rightarrow> json option" where
  "atPath d [] = None"
| "atPath d [k] = field d k"
| "atPath d (k # k' # ks) =
     (case field d k of Some (JObj d') \<Rightarrow> atPath d' (k' # ks) | _ \<Rightarrow> None)"

text \<open>\<open>x || y\<close> on a property that may be \<open>undefined\<close>.\<close>

definition orElse :: "json option \<Rightarrow> json \<Rightarrow> json" where
  "orElse x y = (case x of None \<Rightarrow> y | Some v \<Rightarrow> if truthy v then v else y)"

definition orUndefined :: "json option \<Rightarrow> json option" where
  "orUndefined x = (case x of None \<Rightarrow> None | Some v \<Rightarrow> if truthy v then Some v else None)"

text \<open>
  \<open>!userId\<close> on the \<open>user-id\<close> header: a missing header and an empty one are both
  falsy. \<open>queryParam\<close> is \<open>req.query.k\<close> where the handlers test it for truthiness
  before they use it.
\<close>

definition headerUserId :: "'b request \<Rightarrow> string option" where
  "headerUserId req = (case user_id req of None \<Rightarrow> None | Some u \<Rightarrow> if u = [] then None else Some u)"

definition queryParam :: "'b request \<Rightarrow> string \<Rightarrow> json option" where
  "queryParam req k = orUndefined (field (query req) k)"

definition serverError :: response where
  "serverError = reply 500 (message ''Server error'')"

section \<open>Queries on a collection\<close>

text \<open>
  The conditions the handlers put in their filters. Equality on an array field holds
  when the array contains the value, as in the store; \<open>$in\<close> with the one-element
  list of the source is the same test; the date comparisons hold on dates only.
  \<open>Sat\<close> is a condition the store derives from a filter value that is no string.
\<close>

datatype cond = Eq json | Ne json | In "json list" | Gte int | Lte int | Sat "json option \<Rightarrow> bool"

fun matchesEq :: "json option \<Rightarrow> json \<Rightarrow> bool" where
  "matchesEq None v = False"
| "matchesEq (Some (JArr xs)) v = (v \<in> set xs \<or> JArr xs = v)"
| "matchesEq (Some x) v = (x = v)"

fun holds :: "cond \<Rightarrow> json option \<Rightarrow> bool" where
  "holds (Eq v) x = matchesEq x v"
| "holds (Ne v) x = (\<not> matchesEq x v)"
| "holds (In vs) x = list_ex (matchesEq x) vs"
| "holds (Gte t) x = (case x of Some (JDate d) \<Rightarrow> t \<le> d | _ \<Rightarrow> False)"
| "holds (Lte t) x = (case x of Some (JDate d) \<Rightarrow> d \<le> t | _ \<Rightarrow> False)"
| "holds (Sat f) x = f x"

type_synonym filters = "(string list \<times> cond) list"

definition matchesAll :: "filters \<Rightarrow> obj \<Rightarrow> bool" where
  "matchesAll fs d = list_all (\<lambda>(p, c). holds c (atPath d p)) fs"

definition matchesAny :: "filters \<Rightarrow> obj \<Rightarrow> bool" where
  "matchesAny fs d = list_ex (\<lambda>(p, c). holds c (atPath d p)) fs"

text \<open>
  A query parameter used as a filter on a string path: a string is an equality test;
  anything else (a repeated parameter is an array, a bracketed one an object) is for
  the store to interpret or to refuse. A filter object is built from its entries,
  each of which may be refused.
\<close>

definition filterValue :: "libs \<Rightarrow> string list \<Rightarrow> json \<Rightarrow> cond option" where
  "filterValue L path v =
     (case v of JStr c \<Rightarrow> Some (Eq (JStr c)) | _ \<Rightarrow> map_option Sat (filterOf L path v))"

definition optFilter :: "libs \<Rightarrow> 'b request \<Rightarrow> string \<Rightarrow> string list \<Rightarrow> filters option" where
  "optFilter L req k path =
     (case queryParam req k of
        None \<Rightarrow> Some []
      | Some v \<Rightarrow> (case filterValue L path v of None \<Rightarrow> None | Some c \<Rightarrow> Some [(path, c)]))"

definition allOf :: "filters option list \<Rightarrow> filters option" where
  "allOf fs = map_option concat (those fs)"

text \<open>
  \<open>sort({ createdAt: -1 })\<close>: newest first. \<open>createdAt\<close> is the date the store
  stamps on a created document; a document without one sorts as the epoch.
\<close>

definition createdAt :: "obj \<Rightarrow> int" where
  "createdAt d = (case field d ''createdAt'' of Some (JDate t) \<Rightarrow> t | _ \<Rightarrow> 0)"

definition newestFirst :: "obj list \<Rightarrow> obj list" where
  "newestFirst ds = sort_key (\<lambda>d. - createdAt d) ds"

text \<open>
  \<open>populate(path, 'f g')\<close>: the referenced document reduced to its \<open>_id\<close> and the
  selected kvs, or \<open>null\<close> when the reference finds nothing.
\<close>

definition selectFields :: "string list \<Rightarrow> obj \<Rightarrow> obj" where
  "selectFields ks d = filter (\<lambda>(k, v). k = ''_id'' \<or> k \<in> set ks) d"

definition populate :: "obj list \<Rightarrow> string \<Rightarrow> string list \<Rightarrow> obj \<Rightarrow> obj" where
  "populate coll path ks d =
     (case field d path of
        Some (JStr i) \<Rightarrow>
          setField path (case findById coll i of
                           None \<Rightarrow> JNull
                         | Some r \<Rightarrow> JObj (selectFields ks r)) d
      | _ \<Rightarrow> d)"

definition updateById :: "string \<Rightarrow> (obj \<Rightarrow> obj) \<Rightarrow> obj list \<Rightarrow> obj list" where
  "updateById i f ds = map (\<lambda>d. if hasId i d then f d else d) ds"

definition deleteById :: "string \<Rightarrow> obj list \<Rightarrow> obj list" where
  "deleteById i ds = filter (\<lambda>d. \<not> hasId i d) ds"

section \<open>Schemas and what the store does with them\<close>

text \<open>
  The cast of a value to the type of its path, as the store applies it to a document
  it creates, to the \<open>$set\<close> of an update and to an assignment on a loaded document.
  \<open>None\<close> is a cast error. \<open>null\<close> is kept on a single value and on an array.
  \<^item> String: a string is kept, trimmed where the schema says \<open>trim: true\<close>; an array
    is an error; an object stands for its \<open>_id\<close> when that is a non-empty string
    and is an error otherwise.
  \<^item> Boolean: the store's two tables (\<open>true\<close>, \<open>'true'\<close>, \<open>1\<close>, \<open>'1'\<close>,
    \<open>'yes'\<close> and \<open>false\<close>, \<open>'false'\<close>, \<open>0\<close>, \<open>'0'\<close>, \<open>'no'\<close>); every
    other value is an error.
  \<^item> Number and Date: a number, respectively a date, is kept.
  \<^item> An array is cast element by element; a nested object path by path, and a key of
    it that is no path of the schema is dropped (strict mode).
\<close>

definition trimIf :: "libs \<Rightarrow> bool \<Rightarrow> string \<Rightarrow> string" where
  "trimIf L tr s = (if tr then str_trim L s else s)"

definition castBoolean :: "json \<Rightarrow> json option" where
  "castBoolean v =
     (case v of
        JNull \<Rightarrow> Some JNull
      | JBool b \<Rightarrow> Some (JBool b)
      | JStr s \<Rightarrow>
          if s = ''true'' \<or> s = ''1'' \<or> s = ''yes'' then Some (JBool True)
          else if s = ''false'' \<or> s = ''0'' \<or> s = ''no'' then Some (JBool False)
          else None
      | JNum n \<Rightarrow> if n = 1 then Some (JBool True) else if n = 0 then Some (JBool False) else None
      | _ \<Rightarrow> None)"

definition castString :: "libs \<Rightarrow> bool \<Rightarrow> json \<Rightarrow> json option" where
  "castString L tr v =
     (case v of
        JNull \<Rightarrow> Some JNull
      | JStr s \<Rightarrow> Some (JStr (trimIf L tr s))
      | JArr xs \<Rightarrow> None
      | JObj d \<Rightarrow>
          (case field d ''_id'' of
             Some (JStr i) \<Rightarrow> if i = [] then None else Some (JStr (trimIf L tr i))
           | _ \<Rightarrow> None)
      | _ \<Rightarrow> coerce L (SString tr) v)"

fun cast :: "libs \<Rightarrow> env \<Rightarrow> stype \<Rightarrow> json \<Rightarrow> json option"
  and castFields :: "libs \<Rightarrow> env \<Rightarrow> (string \<times> stype) list \<Rightarrow> obj \<Rightarrow> obj option" where
  "cast L E (SString tr) v = castString L tr v"
| "cast L E SNumber v =
     (case v of JNull \<Rightarrow> Some JNull | JNum n \<Rightarrow> Some (JNum n) | _ \<Rightarrow> coerce L SNumber v)"
| "cast L E SDate v =
     (case v of JNull \<Rightarrow> Some JNull | JDate t \<Rightarrow> Some (JDate t) | _ \<Rightarrow> coerce L SDate v)"
| "cast L E SBoolean v = castBoolean v"
| "cast L E SObjectId v =
     (case v of
        JNull \<Rightarrow> Some JNull
      | JStr s \<Rightarrow> map_option JStr (castObjectId L s)
      | _ \<Rightarrow> coerce L SObjectId v)"
| "cast L E (SArray t) v =
     (case v of
        JNull \<Rightarrow> Some JNull
      | JArr xs \<Rightarrow> map_option JArr (those (map (cast L E t) xs))
      | _ \<Rightarrow> coerce L (SArray t) v)"
| "cast L E (SDocs n) v = subdocuments E n v"
| "cast L E (SNested fs) v =
     (case v of
        JObj d \<Rightarrow> map_option JObj (castFields L E fs d)
      | _ \<Rightarrow> coerce L (SNested fs) v)"
| "castFields L E [] d = Some []"
| "castFields L E ((k, t) # fs) d =
     (case field d k of
        None \<Rightarrow> castFields L E fs d
      | Some v \<Rightarrow>
          (case cast L E t v of
             None \<Rightarrow> None
           | Some v' \<Rightarrow> map_option ((#) (k, v')) (castFields L E fs d)))"

text \<open>
  A \<open>default:\<close> of a schema applies to a path that is \<open>undefined\<close>; an array path
  defaults to the empty array. A default below a nested object creates the object.
\<close>

definition withDefault :: "string \<Rightarrow> json \<Rightarrow> obj \<Rightarrow> obj" where
  "withDefault k v d = (case field d k of None \<Rightarrow> d @ [(k, v)] | Some _ \<Rightarrow> d)"

fun withDefaultAt :: "string list \<Rightarrow> json \<Rightarrow> obj \<Rightarrow> obj" where
  "withDefaultAt [] v d = d"
| "withDefaultAt [k] v d = withDefault k v d"
| "withDefaultAt (k # k' # ks) v d =
     (case field d k of
        None \<Rightarrow> d @ [(k, JObj (withDefaultAt (k' # ks) v []))]
      | Some (JObj d') \<Rightarrow> setField k (JObj (withDefaultAt (k' # ks) v d')) d
      | Some _ \<Rightarrow> d)"

text \<open>The validators of a schema: \<open>required\<close> by type, \<open>enum\<close>, \<open>min\<close>, \<open>max\<close>.\<close>

definition requiredString :: "obj \<Rightarrow> string list \<Rightarrow> bool" where
  "requiredString d p = (case atPath d p of Some (JStr s) \<Rightarrow> s \<noteq> [] | _ \<Rightarrow> False)"

definition requiredNumber :: "obj \<Rightarrow> string list \<Rightarrow> bool" where
  "requiredNumber d p = (case atPath d p of Some (JNum n) \<Rightarrow> True | _ \<Rightarrow> False)"

definition requiredDate :: "obj \<Rightarrow> string list \<Rightarrow> bool" where
  "requiredDate d p = (case atPath d p of Some (JDate t) \<Rightarrow> True | _ \<Rightarrow> False)"

definition requiredId :: "obj \<Rightarrow> string list \<Rightarrow> bool" where
  "requiredId d p = (case atPath d p of Some (JStr i) \<Rightarrow> True | _ \<Rightarrow> False)"

definition inEnum :: "string list \<Rightarrow> json option \<Rightarrow> bool" where
  "inEnum vs x = (case x of None \<Rightarrow> True | Some (JStr s) \<Rightarrow> s \<in> set vs | Some _ \<Rightarrow> False)"

definition inRange :: "rat option \<Rightarrow> rat option \<Rightarrow> json option \<Rightarrow> bool" where
  "inRange lo hi x =
     (case x of
        Some (JNum n) \<Rightarrow>
          (case lo of None \<Rightarrow> True | Some l \<Rightarrow> l \<le> n) \<and> (case hi of None \<Rightarrow> True | Some h \<Rightarrow> n \<le> h)
      | _ \<Rightarrow> True)"

text \<open>
  \<open>Model.create\<close>: the document is cast to the schema (keys that are no path of it
  are dropped), defaulted and validated; the store then adds the generated \<open>_id\<close>,
  the two timestamps of \<open>timestamps: true\<close> and the version key. \<open>None\<close> is the
  rejection of the document, or the store's duplicate-key error when the generated id
  is already in use.
\<close>

definition stamp :: "env \<Rightarrow> obj \<Rightarrow> obj" where
  "stamp E d = setField ''updatedAt'' (JDate (now E))
     (withDefault ''createdAt'' (JDate (now E)) ((''_id'', JStr (newId E)) # d))"

definition create ::
  "libs \<Rightarrow> env \<Rightarrow> schema \<Rightarrow> (obj \<Rightarrow> obj) \<Rightarrow> (obj \<Rightarrow> bool) \<Rightarrow> obj \<Rightarrow> obj list \<Rightarrow> obj option" where
  "create L E sch defaults valid doc coll =
     (case castFields L E sch doc of
        None \<Rightarrow> None
      | Some d \<Rightarrow>
          if valid (defaults d) \<and> findById coll (newId E) = None
          then Some (withDefault ''__v'' (JNum 0) (stamp E (defaults d)))
          else None)"

text \<open>
  \<open>Model.findByIdAndUpdate(id, { $set: fields }, { new: true })\<close> on a schema with
  \<open>timestamps: true\<close>, as it changes the document found. The paths of the stored
  schema are those declared plus \<open>_id\<close>, the two timestamps and the version key.
  For each top-level path: a plain key of \<open>fields\<close> sets it to the cast of its value
  (a cast error refuses the update); keys that are no path of the schema are dropped;
  a dotted key is the store's business, except that below a single value it cannot
  change anything. \<open>updatedAt\<close> is stamped with the clock whatever \<open>fields\<close> says.
  Validators do not run.
\<close>

definition timestamped :: "schema \<Rightarrow> schema" where
  "timestamped sch = (''_id'', SObjectId) # sch @
     [(''createdAt'', SDate), (''updatedAt'', SDate), (''__v'', SNumber)]"

definition plainKey :: "string \<Rightarrow> bool" where
  "plainKey key = (CHR ''.'' \<notin> set key)"

definition headOf :: "string \<Rightarrow> string" where
  "headOf key = takeWhile (\<lambda>c. c \<noteq> CHR ''.'') key"

definition below :: "obj \<Rightarrow> string \<Rightarrow> obj" where
  "below kvs k = filter (\<lambda>(key, v). \<not> plainKey key \<and> headOf key = k) kvs"

fun leaf :: "stype \<Rightarrow> bool" where
  "leaf (SArray t) = False"
| "leaf (SDocs n) = False"
| "leaf (SNested fs) = False"
| "leaf t = True"

definition setPlain :: "libs \<Rightarrow> env \<Rightarrow> obj \<Rightarrow> string \<Rightarrow> stype \<Rightarrow> deep" where
  "setPlain L E kvs k t =
     (case field kvs k of
        None \<Rightarrow> Unchanged
      | Some v \<Rightarrow> (case cast L E t v of None \<Rightarrow> Refused | Some v' \<Rightarrow> Becomes v'))"

definition setPath :: "libs \<Rightarrow> env \<Rightarrow> obj \<Rightarrow> string \<Rightarrow> stype \<Rightarrow> json option \<Rightarrow> deep" where
  "setPath L E kvs k t old =
     (if leaf t then
        (if list_ex (\<lambda>(key, v). belowLeaf L key v) (below kvs k) then Refused
         else if k = ''updatedAt'' then Unchanged
         else if k = ''createdAt'' then
           (case field kvs k of None \<Rightarrow> Unchanged | Some v \<Rightarrow> setCreatedAt L v old)
         else setPlain L E kvs k t)
      else if below kvs k = [] then setPlain L E kvs k t
      else deepSet L k (field kvs k) (below kvs k) old)"

fun setPaths :: "libs \<Rightarrow> env \<Rightarrow> obj \<Rightarrow> schema \<Rightarrow> obj \<Rightarrow> obj option" where
  "setPaths L E kvs [] d = Some d"
| "setPaths L E kvs ((k, t) # sch) d =
     (case setPath L E kvs k t (field d k) of
        Refused \<Rightarrow> None
      | Unchanged \<Rightarrow> setPaths L E kvs sch d
      | Becomes v \<Rightarrow> setPaths L E kvs sch (setField k v d))"

definition findByIdAndUpdate :: "libs \<Rightarrow> env \<Rightarrow> schema \<Rightarrow> obj \<Rightarrow> obj \<Rightarrow> obj option" where
  "findByIdAndUpdate L E sch kvs d =
     map_option (setField ''updatedAt'' (JDate (now E))) (setPaths L E kvs (timestamped sch) d)"

section \<open>The product model\<close>

text \<open>
  \<open>productSchema\<close> of \<open>models/Product\<close>: the type of every declared path, its
  defaults and its validators. \<open>name\<close> is the one string with \<open>trim: true\<close>.
\<close>

definition productCategories :: "string list" where
  "productCategories = [''fruits'', ''vegetables'', ''grains'', ''dairy'', ''livestock'', ''other'']"

definition productStatuses :: "string list" where
  "productStatuses = [''available'', ''reserved'', ''sold'']"

definition productSchema :: schema where
  "productSchema =
     [(''seller'', SObjectId),
      (''farm'', SObjectId),
      (''name'', SString True),
      (''description'', SString False),
      (''category'', SString False),
      (''quantity'', SNumber),
      (''unit'', SString False),
      (''price'', SNumber),
      (''currency'', SString False),
      (''harvestDate'', SDate),
      (''expiryEstimate'', SDate),
      (''status'', SString False),
      (''location'', SNested
         [(''country'', SString False),
          (''region'', SString False),
          (''coordinates'', SNested [(''latitude'', SNumber), (''longitude'', SNumber)])]),
      (''images'', SArray (SString False)),
      (''qualityCertification'', SArray (SString False)),
      (''organicCertification'', SBoolean),
      (''storageRequirements'', SNested
         [(''temperature'', SNested [(''min'', SNumber), (''max'', SNumber)]),
          (''humidity'', SNested [(''min'', SNumber), (''max'', SNumber)]),
          (''lightSensitive'', SBoolean)])]"

definition productDefaults :: "obj \<Rightarrow> obj" where
  "productDefaults d =
     withDefault ''qualityCertification'' (JArr [])
       (withDefault ''images'' (JArr [])
          (withDefault ''status'' (JStr ''available'')
             (withDefault ''currency'' (JStr ''USD'') d)))"

definition productValid :: "obj \<Rightarrow> bool" where
  "productValid d =
     (requiredId d [''seller''] \<and>
      requiredString d [''name''] \<and>
      requiredString d [''description''] \<and>
      requiredString d [''category''] \<and> inEnum productCategories (field d ''category'') \<and>
      requiredNumber d [''quantity''] \<and> inRange (Some 0) None (field d ''quantity'') \<and>
      requiredString d [''unit''] \<and>
      requiredNumber d [''price''] \<and>
      requiredDate d [''harvestDate''] \<and>
      requiredDate d [''expiryEstimate''] \<and>
      inEnum productStatuses (field d ''status'') \<and>
      requiredString d [''location'', ''country''] \<and>
      requiredString d [''location'', ''region''])"

section \<open>Vendor controller\<close>

text \<open>
  The filter object of \<open>listProducts\<close>: one entry per query parameter that is present.
  The seller filter is there when \<open>req.query.mine\<close> is the string \<open>true\<close> (a
  repeated parameter is an array and adds no filter); \<open>seller\<close> is an ObjectId path,
  so the store casts the header value and refuses one that is no ObjectId (the 500 of
  the handler's catch).
\<close>

definition productFilters :: "libs \<Rightarrow> 'b request \<Rightarrow> string \<Rightarrow> filters option" where
  "productFilters L req userId = allOf
     [optFilter L req ''category'' [''category''],
      optFilter L req ''status'' [''status''],
      (if field (query req) ''mine'' = Some (JStr ''true'')
       then (case castObjectId L userId of
               None \<Rightarrow> None
             | Some seller \<Rightarrow> Some [([''seller''], Eq (JStr seller))])
       else Some []),
      optFilter L req ''country'' [''location'', ''country''],
      optFilter L req ''region'' [''location'', ''region'']]"

definition listProducts :: "libs \<Rightarrow> 'b request \<Rightarrow> db \<Rightarrow> response \<times> db" where
  "listProducts L req s =
     (case headerUserId req of
        None \<Rightarrow> (reply 401 (message ''Not authorized''), s)
      | Some userId \<Rightarrow>
          (case productFilters L req userId of
             None \<Rightarrow> (serverError, s)
           | Some filters \<Rightarrow>
               (reply 200 (JArr (map (\<lambda>d. JObj (populate (users s) ''seller'' [''name'', ''phoneNumber''] d))
                  (newestFirst (filter (matchesAll filters) (products s))))), s)))"

definition getProductById :: "libs \<Rightarrow> 'b request \<Rightarrow> db \<Rightarrow> response \<times> db" where
  "getProductById L req s =
     (case map_of (params req) ''productId'' of
        None \<Rightarrow> (reply 400 (message ''Invalid product ID''), s)
      | Some productId \<Rightarrow>
          if \<not> isValidObjectId L productId then (reply 400 (message ''Invalid product ID''), s)
          else (case findById (products s) productId of
                  Some product \<Rightarrow>
                    (reply 200 (JObj (populate (farms s) ''farm'' [''name'', ''location'']
                       (populate (users s) ''seller'' [''name'', ''phoneNumber''] product))), s)
                | None \<Rightarrow> (reply 404 (message ''Product not found''), s)))"

text \<open>
  \<open>createProduct\<close>: the document handed to \<open>Product.create\<close> takes its fields from
  the body, the seller from the header and the constant status; a rejected document
  is caught as a 500.
\<close>

definition newProduct :: "obj \<Rightarrow> string \<Rightarrow> obj" where
  "newProduct b userId = defined
     [(''seller'', Some (JStr userId)),
      (''farm'', orUndefined (field b ''farmId'')),
      (''name'', field b ''name''),
      (''description'', field b ''description''),
      (''category'', field b ''category''),
      (''quantity'', field b ''quantity''),
      (''unit'', field b ''unit''),
      (''price'', field b ''price''),
      (''currency'', field b ''currency''),
      (''harvestDate'', field b ''harvestDate''),
      (''expiryEstimate'', field b ''expiryEstimate''),
      (''status'', Some (JStr ''available'')),
      (''location'', field b ''location''),
      (''images'', field b ''images''),
      (''qualityCertification'', field b ''qualityCertification''),
      (''organicCertification'', field b ''organicCertification''),
      (''storageRequirements'', field b ''storageRequirements'')]"

definition createProduct :: "libs \<Rightarrow> env \<Rightarrow> obj request \<Rightarrow> db \<Rightarrow> response \<times> db" where
  "createProduct L E req s =
     (case headerUserId req of
        None \<Rightarrow> (reply 401 (message ''Not authorized''), s)
      | Some userId \<Rightarrow>
          (case create L E productSchema productDefaults productValid
                  (newProduct (body req) userId) (products s) of
             None \<Rightarrow> (serverError, s)
           | Some product \<Rightarrow> (reply 201 (JObj product), s\<lparr>products := products s @ [product]\<rparr>)))"

text \<open>
  \<open>updateProduct\<close>: the \<open>$set\<close> document is the body without the keys \<open>seller\<close>
  and \<open>_id\<close>. Every stored product has an ObjectId as seller (\<open>createProduct\<close>
  writes one); on a document without one \<open>seller.toString()\<close> throws. The product
  found for the ownership check is still there when it is updated, so the source's
  second 404 is not reached.
\<close>

definition updateProduct :: "libs \<Rightarrow> env \<Rightarrow> obj request \<Rightarrow> db \<Rightarrow> response \<times> db" where
  "updateProduct L E req s =
     (case headerUserId req of
        None \<Rightarrow> (reply 401 (message ''Not authorized''), s)
      | Some userId \<Rightarrow>
         (case map_of (params req) ''productId'' of
            None \<Rightarrow> (reply 400 (message ''Invalid product ID''), s)
          | Some productId \<Rightarrow>
              if \<not> isValidObjectId L productId then (reply 400 (message ''Invalid product ID''), s)
              else (case findById (products s) productId of
                      None \<Rightarrow> (reply 404 (message ''Product not found''), s)
                    | Some product \<Rightarrow>
                        (case field product ''seller'' of
                           Some (JStr seller) \<Rightarrow>
                             if seller \<noteq> userId
                             then (reply 403 (message ''Not authorized to update this product''), s)
                             else (case findByIdAndUpdate L E productSchema
                                          (filter (\<lambda>(key, v). key \<noteq> ''seller'' \<and> key \<noteq> ''_id'') (body req))
                                          product of
                                     None \<Rightarrow> (serverError, s)
                                   | Some updatedProduct \<Rightarrow>
                                       (reply 200 (JObj updatedProduct),
                                        s\<lparr>products := updateById productId (\<lambda>d. updatedProduct) (products s)\<rparr>))
                         | _ \<Rightarrow> (serverError, s)))))"

definition deleteProduct :: "libs \<Rightarrow> 'b request \<Rightarrow> db \<Rightarrow> response \<times> db" where
  "deleteProduct L req s =
     (case headerUserId req of
        None \<Rightarrow> (reply 401 (message ''Not authorized''), s)
      | Some userId \<Rightarrow>
         (case map_of (params req) ''productId'' of
            None \<Rightarrow> (reply 400 (message ''Invalid product ID''), s)
          | Some productId \<Rightarrow>
              if \<not> isValidObjectId L productId then (reply 400 (message ''Invalid product ID''), s)
              else (case findById (products s) productId of
                      None \<Rightarrow> (reply 404 (message ''Product not found''), s)
                    | Some product \<Rightarrow>
                        (case field product ''seller'' of
                           Some (JStr seller) \<Rightarrow>
                             if seller \<noteq> userId
                             then (reply 403 (message ''Not authorized to delete this product''), s)
                             else (reply 200 (message ''Product removed''),
                                   s\<lparr>products := deleteById productId (products s)\<rparr>)
                         | _ \<Rightarrow> (serverError, s)))))"

text \<open>
  \<open>getSpoilageRisks\<close>: a threshold table on the whole days between the clock and the
  product's \<open>expiryEstimate\<close>. The products are loaded documents, on which
  \<open>expiryEstimate\<close> is read through the schema: a date, \<open>null\<close> (which
  \<open>new Date\<close> turns into the epoch) or \<open>undefined\<close> (an invalid date: the
  difference is \<open>NaN\<close>, every comparison fails and the last branch is taken).
\<close>

fun getRiskRecommendations :: "string \<Rightarrow> json option \<Rightarrow> string list" where
  "getRiskRecommendations riskLevel category =
     (if riskLevel = ''critical'' then
        [''Sell immediately at discount'',
         ''Process into longer-lasting form'',
         ''Donate to local food bank within 24 hours'']
      else if riskLevel = ''high'' then
        [''Adjust storage conditions to extend shelf life'',
         ''Consider promotional pricing'',
         ''Move to high-visibility marketplace location'']
      else if riskLevel = ''medium'' then
        [''Monitor storage conditions daily'',
         ''Check for signs of early deterioration'',
         ''Plan marketing strategy for next week'']
      else
        [''Standard storage procedures are sufficient'',
         ''Regular quality checks recommended''])"

definition expiryEstimate :: "libs \<Rightarrow> env \<Rightarrow> obj \<Rightarrow> json option" where
  "expiryEstimate L E product =
     (case field product ''expiryEstimate'' of None \<Rightarrow> None | Some v \<Rightarrow> cast L E SDate v)"

definition daysUntil :: "int \<Rightarrow> json option \<Rightarrow> int option" where
  "daysUntil currentDate expiry =
     (case expiry of
        Some (JDate t) \<Rightarrow> Some ((t - currentDate) div (1000 * 60 * 60 * 24))
      | Some JNull \<Rightarrow> Some ((0 - currentDate) div (1000 * 60 * 60 * 24))
      | _ \<Rightarrow> None)"

definition riskOf :: "int option \<Rightarrow> rat \<times> string" where
  "riskOf daysUntilExpiry =
     (case daysUntilExpiry of
        None \<Rightarrow> (1 / 10, ''low'')
      | Some n \<Rightarrow>
          if n < 3 then (9 / 10, ''critical'')
          else if n < 7 then (7 / 10, ''high'')
          else if n < 14 then (4 / 10, ''medium'')
          else (1 / 10, ''low''))"

definition spoilageRisk :: "libs \<Rightarrow> env \<Rightarrow> obj \<Rightarrow> obj" where
  "spoilageRisk L E product =
     (let daysUntilExpiry = daysUntil (now E) (expiryEstimate L E product);
          (riskScore, riskLevel) = riskOf daysUntilExpiry
      in defined
        [(''productId'', field product ''_id''),
         (''productName'', field product ''name''),
         (''expiryDate'', expiryEstimate L E product),
         (''daysUntilExpiry'', Some (case daysUntilExpiry of None \<Rightarrow> JNull | Some n \<Rightarrow> JNum (of_int n))),
         (''riskScore'', Some (JNum riskScore)),
         (''riskLevel'', Some (JStr riskLevel)),
         (''recommendations'', Some (JArr (map JStr
             (getRiskRecommendations riskLevel (field product ''category'')))))])"

definition getSpoilageRisks :: "libs \<Rightarrow> env \<Rightarrow> 'b request \<Rightarrow> db \<Rightarrow> response \<times> db" where
  "getSpoilageRisks L E req s =
     (case headerUserId req of
        None \<Rightarrow> (reply 401 (message ''Not authorized''), s)
      | Some userId \<Rightarrow>
          (case castObjectId L userId of
             None \<Rightarrow> (serverError, s)
           | Some seller \<Rightarrow>
               (reply 200 (JArr (map (\<lambda>product. JObj (spoilageRisk L E product))
                  (filter (matchesAll [([''seller''], Eq (JStr seller)), ([''status''], Ne (JStr ''sold''))])
                     (products s)))), s)))"

text \<open>
  \<open>getDemandForecasts\<close>: one forecast per product category, in the order of the enum.
  \<open>n\<close> counts the calls of \<open>Math.random()\<close> made so far in the request; each function
  returns the count after its own calls.
\<close>

definition getBestMarkets :: "libs \<Rightarrow> env \<Rightarrow> nat \<Rightarrow> string \<Rightarrow> string list \<times> nat" where
  "getBestMarkets L E n category =
     (let markets = [''Central Farmers Market'',
                     ''East District Food Hub'',
                     ''Western Agricultural Exchange'',
                     ''Northern Territory Trade Center'',
                     ''Southern Cooperative Market''];
          numMarkets = \<lfloor>rand E n * 2\<rfloor> + 2;
          (shuffled, k) = randomSort L (\<lambda>i. rand E (n + 1 + i)) markets
      in (take (nat numMarkets) shuffled, n + 1 + k))"

definition demandForecast :: "libs \<Rightarrow> env \<Rightarrow> nat \<Rightarrow> string \<Rightarrow> obj \<times> nat" where
  "demandForecast L E n category =
     (let demandScore = rand E n;
          (demandTrend, priceRecommendation) =
            (if demandScore > 7 / 10 then (''increasing'', ''consider 5-10% increase'')
             else if demandScore < 3 / 10 then (''decreasing'', ''consider 5-10% discount'')
             else (''stable'', ''maintain''));
          (bestMarkets, m) = getBestMarkets L E (n + 1) category
      in ([(''category'', JStr category),
           (''demandScore'', JNum demandScore),
           (''demandTrend'', JStr demandTrend),
           (''priceRecommendation'', JStr priceRecommendation),
           (''bestMarkets'', JArr (map JStr bestMarkets)),
           (''forecast'', JObj
              [(''nextWeek'', JNum (of_int (\<lfloor>rand E m * 50\<rfloor> + 50))),
               (''nextMonth'', JNum (of_int (\<lfloor>rand E (m + 1) * 200\<rfloor> + 100)))])],
          m + 2))"

fun mockForecasts :: "libs \<Rightarrow> env \<Rightarrow> nat \<Rightarrow> string list \<Rightarrow> obj list" where
  "mockForecasts L E n [] = []"
| "mockForecasts L E n (category # cs) =
     (case demandForecast L E n category of (f, n') \<Rightarrow> f # mockForecasts L E n' cs)"

definition getDemandForecasts :: "libs \<Rightarrow> env \<Rightarrow> 'b request \<Rightarrow> db \<Rightarrow> response \<times> db" where
  "getDemandForecasts L E req s =
     (case headerUserId req of
        None \<Rightarrow> (reply 401 (message ''Not authorized''), s)
      | Some userId \<Rightarrow> (reply 200 (JArr (map JObj (mockForecasts L E 0 productCategories))), s))"

text \<open>\<open>vendorRoutes\<close>: every vendor route runs behind \<open>protect\<close> and \<open>vendorOnly\<close>.\<close>

datatype vendorRoute =
    ListProducts | GetProductById | CreateProduct | UpdateProduct | DeleteProduct
  | SpoilageRisks | DemandForecasts

fun vendorHandler :: "libs \<Rightarrow> env \<Rightarrow> vendorRoute \<Rightarrow> obj request \<Rightarrow> db \<Rightarrow> response \<times> db" where
  "vendorHandler L E ListProducts = listProducts L"
| "vendorHandler L E GetProductById = getProductById L"
| "vendorHandler L E CreateProduct = createProduct L E"
| "vendorHandler L E UpdateProduct = updateProduct L E"
| "vendorHandler L E DeleteProduct = deleteProduct L"
| "vendorHandler L E SpoilageRisks = getSpoilageRisks L E"
| "vendorHandler L E DemandForecasts = getDemandForecasts L E"

definition vendorRoutes :: "libs \<Rightarrow> env \<Rightarrow> vendorRoute \<Rightarrow> obj request \<Rightarrow> db \<Rightarrow> response \<times> db" where
  "vendorRoutes L E route = gated L vendorOnly (vendorHandler L E route)"

section \<open>The analytics model\<close>

text \<open>
  \<open>analyticsSchema\<close> of \<open>models/Analytics\<close>. \<open>metrics\<close>, \<open>visualizations\<close>
  and \<open>sources\<close> are arrays of subdocuments; \<open>accessRights.public\<close> is a Boolean
  with default \<open>false\<close>, and every array path defaults to the empty array.
\<close>

definition analyticsTypes :: "string list" where
  "analyticsTypes = [''yield'', ''waste'', ''market'', ''distribution'', ''environmental'']"

definition analyticsSchema :: schema where
  "analyticsSchema =
     [(''title'', SString True),
      (''description'', SString False),
      (''type'', SString False),
      (''timeframe'', SNested [(''start'', SDate), (''end'', SDate)]),
      (''scope'', SNested
         [(''country'', SString False),
          (''region'', SString False),
          (''cropTypes'', SArray (SString False))]),
      (''metrics'', SDocs ''metrics''),
      (''visualizations'', SDocs ''visualizations''),
      (''insights'', SArray (SString False)),
      (''recommendations'', SArray (SString False)),
      (''sources'', SDocs ''sources''),
      (''accessRights'', SNested
         [(''public'', SBoolean),
          (''restrictedTo'', SArray (SString False))])]"

definition analyticsDefaults :: "obj \<Rightarrow> obj" where
  "analyticsDefaults d =
     withDefaultAt [''accessRights'', ''restrictedTo''] (JArr [])
       (withDefaultAt [''accessRights'', ''public''] (JBool False)
          (withDefault ''sources'' (JArr [])
             (withDefault ''recommendations'' (JArr [])
                (withDefault ''insights'' (JArr [])
                   (withDefault ''visualizations'' (JArr [])
                      (withDefault ''metrics'' (JArr [])
                         (withDefaultAt [''scope'', ''cropTypes''] (JArr []) d)))))))"

definition analyticsValid :: "obj \<Rightarrow> bool" where
  "analyticsValid d =
     (requiredString d [''title''] \<and>
      requiredString d [''description''] \<and>
      requiredString d [''type''] \<and> inEnum analyticsTypes (field d ''type'') \<and>
      requiredDate d [''timeframe'', ''start''] \<and>
      requiredDate d [''timeframe'', ''end''])"

section \<open>NGO controller\<close>

text \<open>
  \<open>accessRights\<close> is a nested path of the analytics schema: read from a document it
  is always an object. \<open>public\<close> is tested for truthiness; \<open>restrictedTo\<close> is an
  array path, so on a document it is an array or \<open>undefined\<close>, and
  \<open>restrictedTo?.includes(u)\<close> is false when it is \<open>undefined\<close>.
\<close>

definition accessRights :: "obj \<Rightarrow> obj" where
  "accessRights a = (case field a ''accessRights'' of Some (JObj r) \<Rightarrow> r | _ \<Rightarrow> [])"

definition truthyField :: "json option \<Rightarrow> bool" where
  "truthyField x = (case x of None \<Rightarrow> False | Some v \<Rightarrow> truthy v)"

definition isPublic :: "obj \<Rightarrow> bool" where
  "isPublic a = truthyField (field (accessRights a) ''public'')"

definition restrictedTo :: "obj \<Rightarrow> json list option" where
  "restrictedTo a = (case field (accessRights a) ''restrictedTo'' of Some (JArr xs) \<Rightarrow> Some xs | _ \<Rightarrow> None)"

definition includesUser :: "obj \<Rightarrow> string \<Rightarrow> bool" where
  "includesUser a u = (case restrictedTo a of None \<Rightarrow> False | Some xs \<Rightarrow> JStr u \<in> set xs)"

text \<open>
  The filters of \<open>getAnalytics\<close>. \<open>new Date(v)\<close> of a string is the parsed date; of
  another value (a repeated parameter) it is what the conversion of that value gives.
  An invalid date is refused by the store (\<open>None\<close>, the handler's 500).
\<close>

definition newDate :: "libs \<Rightarrow> json \<Rightarrow> int option" where
  "newDate L v =
     (case v of
        JStr d \<Rightarrow> parseDate L d
      | _ \<Rightarrow> (case coerce L SDate v of Some (JDate t) \<Rightarrow> Some t | _ \<Rightarrow> None))"

definition dateFilter :: "libs \<Rightarrow> 'b request \<Rightarrow> string \<Rightarrow> string list \<Rightarrow> (int \<Rightarrow> cond) \<Rightarrow> filters option" where
  "dateFilter L req k path c =
     (case queryParam req k of
        None \<Rightarrow> Some []
      | Some v \<Rightarrow> (case newDate L v of None \<Rightarrow> None | Some t \<Rightarrow> Some [(path, c t)]))"

definition cropTypeFilter :: "libs \<Rightarrow> 'b request \<Rightarrow> filters option" where
  "cropTypeFilter L req =
     (case queryParam req ''cropType'' of
        None \<Rightarrow> Some []
      | Some (JStr c) \<Rightarrow> Some [([''scope'', ''cropTypes''], In [JStr c])]
      | Some v \<Rightarrow>
          map_option (\<lambda>f. [([''scope'', ''cropTypes''], Sat f)])
            (filterOf L [''scope'', ''cropTypes''] (JObj [(''$in'', JArr [v])])))"

definition analyticsFilters :: "libs \<Rightarrow> 'b request \<Rightarrow> filters option" where
  "analyticsFilters L req = allOf
     [optFilter L req ''type'' [''type''],
      optFilter L req ''country'' [''scope'', ''country''],
      optFilter L req ''region'' [''scope'', ''region''],
      cropTypeFilter L req,
      dateFilter L req ''startDate'' [''timeframe'', ''start''] Gte,
      dateFilter L req ''endDate'' [''timeframe'', ''end''] Lte]"

definition accessFilter :: "string \<Rightarrow> filters" where
  "accessFilter userId =
     [([''accessRights'', ''public''], Eq (JBool True)),
      ([''accessRights'', ''restrictedTo''], Eq (JStr userId))]"

definition getAnalytics :: "libs \<Rightarrow> 'b request \<Rightarrow> db \<Rightarrow> response \<times> db" where
  "getAnalytics L req s =
     (case headerUserId req of
        None \<Rightarrow> (reply 401 (message ''Not authorized''), s)
      | Some userId \<Rightarrow>
          (case analyticsFilters L req of
             None \<Rightarrow> (serverError, s)
           | Some fs \<Rightarrow>
               (reply 200 (JArr (map JObj (newestFirst
                  (filter (\<lambda>d. matchesAll fs d \<and> matchesAny (accessFilter userId) d) (analytics s))))), s)))"

definition getAnalyticsById :: "libs \<Rightarrow> 'b request \<Rightarrow> db \<Rightarrow> response \<times> db" where
  "getAnalyticsById L req s =
     (case headerUserId req of
        None \<Rightarrow> (reply 401 (message ''Not authorized''), s)
      | Some userId \<Rightarrow>
         (case map_of (params req) ''analyticsId'' of
            None \<Rightarrow> (reply 400 (message ''Invalid analytics ID''), s)
          | Some analyticsId \<Rightarrow>
              if \<not> isValidObjectId L analyticsId then (reply 400 (message ''Invalid analytics ID''), s)
              else (case findById (analytics s) analyticsId of
                      None \<Rightarrow> (reply 404 (message ''Analytics not found''), s)
                    | Some a \<Rightarrow>
                        if \<not> isPublic a \<and> \<not> includesUser a userId
                        then (reply 403 (message ''Not authorized to access these analytics''), s)
                        else (reply 200 (JObj a), s))))"

text \<open>
  \<open>createAnalytics\<close>. Reading \<open>accessRights.public\<close> throws when the body has no
  \<open>accessRights\<close>; spreading a \<open>restrictedTo\<close> that is neither falsy, an array nor a
  string throws as well (both are the handler's 500). The spread of an object is its
  properties, that of an array or a string its elements under their indices, and that
  of another value is empty. The handler decides on the truthiness of the body's
  \<open>public\<close>; the store then casts it to a Boolean.
\<close>

fun showNat :: "nat \<Rightarrow> string" where
  "showNat n = (if n < 10 then [char_of (48 + n)] else showNat (n div 10) @ [char_of (48 + n mod 10)])"

definition indexed :: "json list \<Rightarrow> obj" where
  "indexed xs = zip (map showNat [0..<length xs]) xs"

definition spreadObj :: "json \<Rightarrow> obj" where
  "spreadObj v =
     (case v of
        JObj kvs \<Rightarrow> kvs
      | JArr xs \<Rightarrow> indexed xs
      | JStr cs \<Rightarrow> indexed (map (\<lambda>c. JStr [c]) cs)
      | _ \<Rightarrow> [])"

definition spreadOrEmpty :: "json option \<Rightarrow> json list option" where
  "spreadOrEmpty x =
     (case orElse x (JArr []) of
        JArr xs \<Rightarrow> Some xs
      | JStr cs \<Rightarrow> Some (map (\<lambda>c. JStr [c]) cs)
      | _ \<Rightarrow> None)"

definition dropField :: "string \<Rightarrow> obj \<Rightarrow> obj" where
  "dropField k d = filter (\<lambda>(k', v). k' \<noteq> k) d"

definition updatedAccessRights :: "json \<Rightarrow> string \<Rightarrow> obj option" where
  "updatedAccessRights ar userId =
     (if truthyField (field (spreadObj ar) ''public'')
      then Some (dropField ''restrictedTo'' (spreadObj ar))
      else (case spreadOrEmpty (field (spreadObj ar) ''restrictedTo'') of
              None \<Rightarrow> None
            | Some xs \<Rightarrow> Some (setField ''restrictedTo'' (JArr (xs @ [JStr userId])) (spreadObj ar))))"

definition newAnalytics :: "obj \<Rightarrow> obj \<Rightarrow> obj" where
  "newAnalytics b rights = defined
     [(''title'', field b ''title''),
      (''description'', field b ''description''),
      (''type'', field b ''type''),
      (''timeframe'', field b ''timeframe''),
      (''scope'', field b ''scope''),
      (''metrics'', field b ''metrics''),
      (''visualizations'', field b ''visualizations''),
      (''insights'', field b ''insights''),
      (''recommendations'', field b ''recommendations''),
      (''sources'', field b ''sources''),
      (''accessRights'', Some (JObj rights))]"

definition createAnalytics :: "libs \<Rightarrow> env \<Rightarrow> obj request \<Rightarrow> db \<Rightarrow> response \<times> db" where
  "createAnalytics L E req s =
     (case headerUserId req of
        None \<Rightarrow> (reply 401 (message ''Not authorized''), s)
      | Some userId \<Rightarrow>
         (case field (body req) ''accessRights'' of
            None \<Rightarrow> (serverError, s)
          | Some JNull \<Rightarrow> (serverError, s)
          | Some ar \<Rightarrow>
              (case updatedAccessRights ar userId of
                 None \<Rightarrow> (serverError, s)
               | Some rights \<Rightarrow>
                   (case create L E analyticsSchema analyticsDefaults analyticsValid
                           (newAnalytics (body req) rights) (analytics s) of
                      None \<Rightarrow> (serverError, s)
                    | Some a \<Rightarrow> (reply 201 (JObj a), s\<lparr>analytics := analytics s @ [a]\<rparr>)))))"

text \<open>
  \<open>updateAnalytics\<close>: every key of the body but \<open>_id\<close> is assigned to the loaded
  document, where the assignment of a schema path casts the value (a value that does
  not cast makes \<open>save()\<close> reject the document); then the caller is appended to
  \<open>restrictedTo\<close> when the document is neither public nor lists the caller, and
  \<open>save()\<close> validates the document, stamps \<open>updatedAt\<close> if it finds it modified
  and stores it.
\<close>

definition assign :: "libs \<Rightarrow> env \<Rightarrow> string \<Rightarrow> json \<Rightarrow> obj \<Rightarrow> obj option" where
  "assign L E key v a =
     (case map_of (timestamped analyticsSchema) key of
        None \<Rightarrow> assignStray L key v a
      | Some t \<Rightarrow> (case cast L E t v of None \<Rightarrow> None | Some v' \<Rightarrow> Some (setField key v' a)))"

fun assignBody :: "libs \<Rightarrow> env \<Rightarrow> obj \<Rightarrow> obj \<Rightarrow> obj option" where
  "assignBody L E [] a = Some a"
| "assignBody L E ((key, v) # b) a =
     (if key \<noteq> ''_id''
      then (case assign L E key v a of None \<Rightarrow> None | Some a' \<Rightarrow> assignBody L E b a')
      else assignBody L E b a)"

definition setRestrictedTo :: "json list \<Rightarrow> obj \<Rightarrow> obj" where
  "setRestrictedTo xs a = setField ''accessRights'' (JObj (setField ''restrictedTo'' (JArr xs) (accessRights a))) a"

definition ensureAccess :: "string \<Rightarrow> obj \<Rightarrow> obj" where
  "ensureAccess userId a =
     (if \<not> isPublic a \<and> \<not> includesUser a userId
      then setRestrictedTo ((case restrictedTo a of None \<Rightarrow> [] | Some xs \<Rightarrow> xs) @ [JStr userId]) a
      else a)"

definition save :: "libs \<Rightarrow> env \<Rightarrow> obj \<Rightarrow> obj \<Rightarrow> obj option" where
  "save L E a a' =
     (if analyticsValid a'
      then Some ((case nextVersion L a a' of None \<Rightarrow> id | Some v \<Rightarrow> setField ''__v'' v)
                   (if isModified L a a' then setField ''updatedAt'' (JDate (now E)) a' else a'))
      else None)"

definition updateAnalytics :: "libs \<Rightarrow> env \<Rightarrow> obj request \<Rightarrow> db \<Rightarrow> response \<times> db" where
  "updateAnalytics L E req s =
     (case headerUserId req of
        None \<Rightarrow> (reply 401 (message ''Not authorized''), s)
      | Some userId \<Rightarrow>
         (case map_of (params req) ''analyticsId'' of
            None \<Rightarrow> (reply 400 (message ''Invalid analytics ID''), s)
          | Some analyticsId \<Rightarrow>
              if \<not> isValidObjectId L analyticsId then (reply 400 (message ''Invalid analytics ID''), s)
              else (case findById (analytics s) analyticsId of
                      None \<Rightarrow> (reply 404 (message ''Analytics not found''), s)
                    | Some a \<Rightarrow>
                        if \<not> includesUser a userId
                        then (reply 403 (message ''Not authorized to update these analytics''), s)
                        else (case assignBody L E (body req) a of
                                None \<Rightarrow> (serverError, s)
                              | Some a' \<Rightarrow>
                                  (case save L E a (ensureAccess userId a') of
                                     None \<Rightarrow> (serverError, s)
                                   | Some updatedAnalytics \<Rightarrow>
                                       (reply 200 (JObj updatedAnalytics),
                                        s\<lparr>analytics := updateById analyticsId (\<lambda>d. updatedAnalytics) (analytics s)\<rparr>))))))"

definition deleteAnalytics :: "libs \<Rightarrow> 'b request \<Rightarrow> db \<Rightarrow> response \<times> db" where
  "deleteAnalytics L req s =
     (case headerUserId req of
        None \<Rightarrow> (reply 401 (message ''Not authorized''), s)
      | Some userId \<Rightarrow>
         (case map_of (params req) ''analyticsId'' of
            None \<Rightarrow> (reply 400 (message ''Invalid analytics ID''), s)
          | Some analyticsId \<Rightarrow>
              if \<not> isValidObjectId L analyticsId then (reply 400 (message ''Invalid analytics ID''), s)
              else (case findById (analytics s) analyticsId of
                      None \<Rightarrow> (reply 404 (message ''Analytics not found''), s)
                    | Some a \<Rightarrow>
                        if \<not> includesUser a userId
                        then (reply 403 (message ''Not authorized to delete these analytics''), s)
                        else (reply 200 (message ''Analytics removed''),
                              s\<lparr>analytics := deleteById analyticsId (analytics s)\<rparr>))))"

text \<open>
  \<open>exportAnalyticsData\<close>: \<open>format\<close> is the query parameter, or \<open>json\<close> when it is
  missing or empty; the csv branch is taken when it is the string \<open>csv\<close>.
\<close>

definition csvPlaceholder :: "obj \<Rightarrow> json" where
  "csvPlaceholder a = JObj [(''message'', JStr ''CSV export would be generated here''), (''data'', JObj a)]"

definition jsonExport :: "env \<Rightarrow> obj \<Rightarrow> json" where
  "jsonExport E a = JObj (defined
     [(''title'', field a ''title''),
      (''description'', field a ''description''),
      (''type'', field a ''type''),
      (''timeframe'', field a ''timeframe''),
      (''scope'', field a ''scope''),
      (''metrics'', field a ''metrics''),
      (''insights'', Some (orElse (field a ''insights'') (JArr []))),
      (''recommendations'', Some (orElse (field a ''recommendations'') (JArr []))),
      (''exportedAt'', Some (JDate (now E))),
      (''sources'', Some (orElse (field a ''sources'') (JArr [])))])"

definition exportAnalyticsData :: "libs \<Rightarrow> env \<Rightarrow> 'b request \<Rightarrow> db \<Rightarrow> response \<times> db" where
  "exportAnalyticsData L E req s =
     (let format = orElse (field (query req) ''format'') (JStr ''json'') in
      case headerUserId req of
        None \<Rightarrow> (reply 401 (message ''Not authorized''), s)
      | Some userId \<Rightarrow>
         (case map_of (params req) ''analyticsId'' of
            None \<Rightarrow> (reply 400 (message ''Invalid analytics ID''), s)
          | Some analyticsId \<Rightarrow>
              if \<not> isValidObjectId L analyticsId then (reply 400 (message ''Invalid analytics ID''), s)
              else (case findById (analytics s) analyticsId of
                      None \<Rightarrow> (reply 404 (message ''Analytics not found''), s)
                    | Some a \<Rightarrow>
                        if \<not> isPublic a \<and> \<not> includesUser a userId
                        then (reply 403 (message ''Not authorized to access these analytics''), s)
                        else if format = JStr ''csv'' then (reply 200 (csvPlaceholder a), s)
                        else (reply 200 (jsonExport E a), s))))"

text \<open>\<open>ngoRoutes\<close>: every NGO route runs behind \<open>protect\<close> and \<open>ngoOnly\<close>.\<close>

datatype ngoRoute =
    GetAnalytics | GetAnalyticsById | CreateAnalytics | UpdateAnalytics | DeleteAnalytics
  | ExportAnalyticsData

fun ngoHandler :: "libs \<Rightarrow> env \<Rightarrow> ngoRoute \<Rightarrow> obj request \<Rightarrow> db \<Rightarrow> response \<times> db" where
  "ngoHandler L E GetAnalytics = getAnalytics L"
| "ngoHandler L E GetAnalyticsById = getAnalyticsById L"
| "ngoHandler L E CreateAnalytics = createAnalytics L E"
| "ngoHandler L E UpdateAnalytics = updateAnalytics L E"
| "ngoHandler L E DeleteAnalytics = deleteAnalytics L"
| "ngoHandler L E ExportAnalyticsData = exportAnalyticsData L E"

definition ngoRoutes :: "libs \<Rightarrow> env \<Rightarrow> ngoRoute \<Rightarrow> obj request \<Rightarrow> db \<Rightarrow> response \<times> db" where
  "ngoRoutes L E route = gated L ngoOnly (ngoHandler L E route)"

section \<open>User controller: registration\<close>

text \<open>\<open>generateToken\<close> signs the payload \<open>{ id, role }\<close>.\<close>

definition generateToken :: "libs \<Rightarrow> json option \<Rightarrow> json option \<Rightarrow> string" where
  "generateToken L i r = jwt_sign L (defined [(''id'', i), (''role'', r)])"

text \<open>
  \<open>User.findOne({ email })\<close>: for a string, the first user stored with that email.
\<close>

definition findUserByEmail :: "libs \<Rightarrow> json option \<Rightarrow> obj list \<Rightarrow> obj option" where
  "findUserByEmail L email us =
     (case email of
        Some (JStr e) \<Rightarrow> find (\<lambda>u. field u ''email'' = Some (JStr e)) us
      | _ \<Rightarrow> otherEmailFilter L email us)"

definition registrationError :: response where
  "registrationError = reply 500 (message ''Server error during registration'')"

text \<open>
  \<open>register\<close>. \<open>bcrypt.hash\<close> throws on a password that is no string, and
  \<open>User.create\<close> on a document the schema rejects; both are caught as a 500.
  \<open>User.create\<close> resolves to the created document, so the source's last branch
  (400, invalid user data) is never taken.
\<close>

definition register :: "libs \<Rightarrow> env \<Rightarrow> obj request \<Rightarrow> db \<Rightarrow> response \<times> db" where
  "register L E req s =
     (case findUserByEmail L (field (body req) ''email'') (users s) of
        Some userExists \<Rightarrow> (reply 400 (message ''User already exists''), s)
      | None \<Rightarrow>
          (case field (body req) ''password'' of
             Some (JStr password) \<Rightarrow>
               (let doc = defined
                      [(''name'', field (body req) ''name''),
                       (''email'', field (body req) ''email''),
                       (''password'', Some (JStr (bcrypt_hash L password))),
                       (''role'', Some (orElse (field (body req) ''role'') (JStr (roleName FARMER)))),
                       (''location'', field (body req) ''location''),
                       (''phoneNumber'', field (body req) ''phoneNumber'')]
                in if \<not> userOk L doc \<or> findById (users s) (newId E) \<noteq> None then (registrationError, s)
                   else (let u = stamp E doc
                         in (reply 201 (JObj (defined
                               [(''_id'', field u ''_id''),
                                (''name'', field u ''name''),
                                (''email'', field u ''email''),
                                (''role'', field u ''role''),
                                (''location'', field u ''location''),
                                (''token'', Some (JStr (generateToken L (field u ''_id'') (field u ''role''))))])),
                             s\<lparr>users := users s @ [u]\<rparr>)))
           | _ \<Rightarrow> (registrationError, s)))"

section \<open>The yield-prediction model\<close>

text \<open>
  \<open>yieldPredictionSchema\<close> of \<open>models/YieldPrediction\<close>. The element of
  \<open>recommendations.fertilizers\<close> is declared as an object whose \<open>type\<close> key is
  \<open>String\<close>, which the store reads as the declaration of a string: the path is an
  array of strings.
\<close>

definition yieldPredictionSchema :: schema where
  "yieldPredictionSchema =
     [(''farm'', SObjectId),
      (''crop'', SNested
         [(''name'', SString False), (''variety'', SString False), (''area'', SNumber)]),
      (''prediction'', SNested
         [(''expectedYield'', SNumber),
          (''yieldUnit'', SString False),
          (''lowerBound'', SNumber),
          (''upperBound'', SNumber),
          (''confidenceLevel'', SNumber)]),
      (''factors'', SNested
         [(''soilQuality'', SNumber),
          (''weatherConditions'', SString False),
          (''pestRisks'', SArray (SString False)),
          (''diseaseProbability'', SNumber),
          (''rainfall'', SNumber),
          (''temperature'', SNested [(''min'', SNumber), (''max'', SNumber), (''average'', SNumber)])]),
      (''recommendations'', SNested
         [(''irrigationSchedule'', SString False),
          (''fertilizers'', SArray (SString False)),
          (''pestControl'', SArray (SString False)),
          (''harvestTime'', SDate)])]"

definition yieldPredictionDefaults :: "obj \<Rightarrow> obj" where
  "yieldPredictionDefaults d =
     withDefaultAt [''recommendations'', ''pestControl''] (JArr [])
       (withDefaultAt [''recommendations'', ''fertilizers''] (JArr [])
          (withDefaultAt [''factors'', ''pestRisks''] (JArr []) d))"

definition yieldPredictionValid :: "obj \<Rightarrow> bool" where
  "yieldPredictionValid d =
     (requiredId d [''farm''] \<and>
      requiredString d [''crop'', ''name''] \<and>
      requiredNumber d [''crop'', ''area''] \<and>
      requiredNumber d [''prediction'', ''expectedYield''] \<and>
      requiredString d [''prediction'', ''yieldUnit''] \<and>
      inRange (Some 0) (Some 1) (atPath d [''prediction'', ''confidenceLevel'']))"

section \<open>Farmer controller: yield predictions\<close>

text \<open>
  \<open>requestNewPrediction\<close>. The mock prediction is built from nine successive results
  of \<open>Math.random()\<close>, in the order in which the object literal evaluates them, and
  from the clock. \<open>owner\<close> is an ObjectId path, so the farm query casts the identity
  and refuses one that is no ObjectId.
\<close>

definition mockPrediction :: "env \<Rightarrow> obj \<Rightarrow> obj \<Rightarrow> obj" where
  "mockPrediction E b farm =
     (let expectedYield = \<lfloor>rand E 0 * 5000\<rfloor> + 3000;
          weather = \<lfloor>rand E 2 * 2\<rfloor>
      in defined
        [(''farm'', field farm ''_id''),
         (''crop'', Some (JObj (defined
            [(''name'', field b ''cropName''),
             (''variety'', field b ''cropVariety''),
             (''area'', field b ''cropArea'')]))),
         (''prediction'', Some (JObj
            [(''expectedYield'', JNum (of_int expectedYield)),
             (''yieldUnit'', JStr ''kg/ha''),
             (''lowerBound'', JNum (of_int \<lfloor>(of_int expectedYield :: rat) * (9 / 10)\<rfloor>)),
             (''upperBound'', JNum (of_int \<lfloor>(of_int expectedYield :: rat) * (11 / 10)\<rfloor>)),
             (''confidenceLevel'', JNum (85 / 100))])),
         (''factors'', Some (JObj (defined
            [(''soilQuality'', Some (JNum (rand E 1 * 10))),
             (''weatherConditions'',
                (if 0 \<le> weather
                 then map_option JStr (at_index [''moderate rainfall'', ''good sunlight''] (nat weather))
                 else None)),
             (''pestRisks'', Some (JArr (if rand E 3 > 1 / 2
                                        then [JStr ''aphids'', JStr ''whiteflies'']
                                        else [JStr ''none'']))),
             (''rainfall'', Some (JNum (of_int (\<lfloor>rand E 4 * 300\<rfloor> + 500)))),
             (''temperature'', Some (JObj
                [(''min'', JNum (15 + rand E 5 * 5)),
                 (''max'', JNum (25 + rand E 6 * 5)),
                 (''average'', JNum (20 + rand E 7 * 5))]))]))),
         (''recommendations'', Some (JObj
            [(''irrigationSchedule'', JStr ''Twice weekly, 20mm per session''),
             (''fertilizers'', JArr [JObj
                [(''type'', JStr ''Nitrogen-rich''),
                 (''amount'', JNum 50),
                 (''unit'', JStr ''kg/ha''),
                 (''applicationTime'', JStr ''Every 2 weeks'')]]),
             (''pestManagement'', JArr [JStr ''Monitor for pests regularly'',
                                        JStr ''Use organic pesticides if needed'']),
             (''harvestingDate'', JDate (now E + \<lfloor>rand E 8 * 7776000000\<rfloor>))])),
         (''createdAt'', Some (JDate (now E)))])"

definition predictionError :: response where
  "predictionError = reply 500 (message ''Server error requesting new prediction'')"

definition requestNewPrediction :: "libs \<Rightarrow> env \<Rightarrow> obj request \<Rightarrow> db \<Rightarrow> response \<times> db" where
  "requestNewPrediction L E req s =
     (case user req of
        None \<Rightarrow> (reply 401 (message ''Not authorized''), s)
      | Some u \<Rightarrow>
          (case castObjectId L (ident u) of
             None \<Rightarrow> (predictionError, s)
           | Some owner \<Rightarrow>
               (case find (\<lambda>f. field f ''owner'' = Some (JStr owner)) (farms s) of
                  None \<Rightarrow> (reply 404 (message ''Farm not found''), s)
                | Some farm \<Rightarrow>
                    (case create L E (yieldPredictionSchema @ [(''createdAt'', SDate)])
                            yieldPredictionDefaults yieldPredictionValid
                            (mockPrediction E (body req) farm) (predictions s) of
                       None \<Rightarrow> (predictionError, s)
                     | Some prediction \<Rightarrow>
                         (reply 201 (JObj prediction),
                          s\<lparr>predictions := predictions s @ [prediction]\<rparr>)))))"

text \<open>The prediction route of \<open>farmerRoutes\<close>, behind \<open>protect\<close> and \<open>farmerOnly\<close>.\<close>

definition farmerPredictions :: "libs \<Rightarrow> env \<Rightarrow> obj request \<Rightarrow> db \<Rightarrow> response \<times> db" where
  "farmerPredictions L E = gated L farmerOnly (requestNewPrediction L E)"

section \<open>A concrete configuration\<close>

text \<open>
  One instance of the collaborators, used to run the handlers on concrete requests.
  Three tokens verify, one per role. An ObjectId is a string of 24 lower-case
  hexadecimal digits. Two date strings parse. Whatever else the store would have to
  interpret (a cast between types, a filter that is no string, a dotted key of an
  update, an array of subdocuments that is not empty) it refuses.
\<close>

abbreviation vendor1 :: string where "vendor1 \<equiv> ''a10000000000000000000001''"
abbreviation vendor2 :: string where "vendor2 \<equiv> ''a20000000000000000000002''"
abbreviation ngo1 :: string where "ngo1 \<equiv> ''b10000000000000000000001''"
abbreviation ngo2 :: string where "ngo2 \<equiv> ''b20000000000000000000002''"
abbreviation farmer1 :: string where "farmer1 \<equiv> ''c10000000000000000000001''"
abbreviation productId1 :: string where "productId1 \<equiv> ''d10000000000000000000001''"
abbreviation productId2 :: string where "productId2 \<equiv> ''d20000000000000000000002''"
abbreviation analyticsId1 :: string where "analyticsId1 \<equiv> ''e10000000000000000000001''"
abbreviation freshId :: string where "freshId \<equiv> ''f90000000000000000000009''"

definition stubVerify :: "string \<Rightarrow> identity option" where
  "stubVerify t =
     (if t = ''vendor-token'' then Some \<lparr>ident = vendor1, role = VENDOR\<rparr>
      else if t = ''ngo-token'' then Some \<lparr>ident = ngo1, role = NGO\<rparr>
      else if t = ''farmer-token'' then Some \<lparr>ident = farmer1, role = FARMER\<rparr>
      else None)"

definition hexId :: "string \<Rightarrow> bool" where
  "hexId i = (length i = 24 \<and> list_all (\<lambda>c. c \<in> set ''0123456789abcdef'') i)"

definition stubDate :: "string \<Rightarrow> int option" where
  "stubDate d =
     (if d = ''2025-01-01'' then Some 1735689600000
      else if d = ''2025-01-05'' then Some 1736035200000
      else None)"

definition stubCoerce :: "stype \<Rightarrow> json \<Rightarrow> json option" where
  "stubCoerce t v = (case (t, v) of (SDate, JStr d) \<Rightarrow> map_option JDate (stubDate d) | _ \<Rightarrow> None)"

definition stubTrim :: "string \<Rightarrow> string" where
  "stubTrim s = rev (dropWhile (\<lambda>c. c = CHR '' '') (rev (dropWhile (\<lambda>c. c = CHR '' '') s)))"

definition stubLibs :: libs where
  "stubLibs = \<lparr>jwt_verify = stubVerify,
     jwt_sign = (\<lambda>p. ''signed''),
     bcrypt_hash = (\<lambda>p. ''hashed:'' @ p),
     isValidObjectId = hexId,
     str_trim = stubTrim,
     castObjectId = (\<lambda>i. if hexId i then Some i else None),
     parseDate = stubDate,
     coerce = stubCoerce,
     filterOf = (\<lambda>p v. None),
     otherEmailFilter = (\<lambda>v us. None),
     belowLeaf = (\<lambda>k v. True),
     deepSet = (\<lambda>k p sub old. Refused),
     setCreatedAt = (\<lambda>v old. Unchanged),
     assignStray = (\<lambda>k v a. Some a),
     isModified = (\<lambda>a a'. a' \<noteq> a),
     nextVersion = (\<lambda>a a'. None),
     userOk = (\<lambda>d. True),
     randomSort = (\<lambda>r xs. (xs, 0))\<rparr>"

definition stubSubdocuments :: "string \<Rightarrow> json \<Rightarrow> json option" where
  "stubSubdocuments n v = (if v = JArr [] then Some (JArr []) else None)"

text \<open>A request carrying a bearer token and, possibly, a \<open>user-id\<close> header.\<close>

definition bearer :: "string \<Rightarrow> string option \<Rightarrow> 'b \<Rightarrow> 'b request" where
  "bearer t u b = \<lparr>authorization = Some (''Bearer '' @ t), user_id = u, params = [],
     query = [], body = b, user = None\<rparr>"

text \<open>A handler that counts its invocations in the state.\<close>

definition okHandler :: "unit request \<Rightarrow> nat \<Rightarrow> response \<times> nat" where
  "okHandler req n = (reply 200 JNull, Suc n)"

text \<open>
  A small stored state: one user, one farm owned by the farmer identity, one product
  sold by the first vendor and one private analytics record that lists the first NGO
  user. The clock of the runs below is the first of January 2025; the product expires
  four days later.
\<close>

definition user1 :: obj where
  "user1 = [(''_id'', JStr vendor1), (''name'', JStr ''Ada''), (''email'', JStr ''ada@example.org''),
            (''password'', JStr ''hashed:secret''), (''role'', JStr ''vendor''),
            (''location'', JObj [(''country'', JStr ''Kenya''), (''region'', JStr ''Rift Valley'')])]"

definition farm1 :: obj where
  "farm1 = [(''_id'', JStr ''c20000000000000000000002''), (''owner'', JStr farmer1),
            (''name'', JStr ''North field'')]"

definition product1 :: obj where
  "product1 =
     [(''_id'', JStr productId1), (''seller'', JStr vendor1), (''name'', JStr ''Maize''),
      (''description'', JStr ''White maize, dried''), (''category'', JStr ''grains''),
      (''quantity'', JNum 100), (''unit'', JStr ''kg''), (''price'', JNum 3),
      (''currency'', JStr ''USD''), (''harvestDate'', JDate 1733011200000),
      (''expiryEstimate'', JDate 1736035200000), (''status'', JStr ''available''),
      (''location'', JObj [(''country'', JStr ''Kenya''), (''region'', JStr ''Rift Valley'')]),
      (''images'', JArr []), (''qualityCertification'', JArr []),
      (''createdAt'', JDate 1733097600000), (''updatedAt'', JDate 1733097600000),
      (''__v'', JNum 0)]"

definition analytics1 :: obj where
  "analytics1 =
     [(''_id'', JStr analyticsId1), (''title'', JStr ''Yield report''),
      (''description'', JStr ''Maize yields of the season''), (''type'', JStr ''yield''),
      (''timeframe'', JObj [(''start'', JDate 1704067200000), (''end'', JDate 1735603200000)]),
      (''scope'', JObj [(''country'', JStr ''Kenya''), (''cropTypes'', JArr [JStr ''maize''])]),
      (''metrics'', JArr [JObj [(''name'', JStr ''yield''), (''value'', JNum 4200),
                               (''unit'', JStr ''kg/ha''),
                               (''_id'', JStr ''e20000000000000000000002'')]]),
      (''visualizations'', JArr []),
      (''insights'', JArr [JStr ''Yields rose with the long rains'']),
      (''recommendations'', JArr []),
      (''sources'', JArr []),
      (''accessRights'', JObj [(''public'', JBool False), (''restrictedTo'', JArr [JStr ngo1])]),
      (''createdAt'', JDate 1735603200000), (''updatedAt'', JDate 1735603200000),
      (''__v'', JNum 0)]"

definition db0 :: db where
  "db0 = \<lparr>users = [user1], farms = [farm1], products = [product1], predictions = [],
          analytics = [analytics1]\<rparr>"

text \<open>Two sequences of random draws and the environments that differ in them only.\<close>

definition drawsLow :: "nat \<Rightarrow> rat" where
  "drawsLow n = 1 / 10"

definition drawsHigh :: "nat \<Rightarrow> rat" where
  "drawsHigh n = 9 / 10"

definition envLow :: env where
  "envLow = \<lparr>now = 1735689600000, rand = drawsLow, newId = freshId,
              subdocuments = stubSubdocuments\<rparr>"

definition envHigh :: env where
  "envHigh = \<lparr>now = 1735689600000, rand = drawsHigh, newId = freshId,
               subdocuments = stubSubdocuments\<rparr>"

text \<open>Requests against that state.\<close>

definition call :: "string \<Rightarrow> string option \<Rightarrow> (string \<times> string) list \<Rightarrow> obj \<Rightarrow> obj \<Rightarrow> obj request" where
  "call t u ps q b = \<lparr>authorization = Some (''Bearer '' @ t), user_id = u, params = ps,
     query = q, body = b, user = None\<rparr>"

text \<open>The same state with a second product, sold by another vendor.\<close>

definition product2 :: obj where
  "product2 =
     [(''_id'', JStr productId2), (''seller'', JStr vendor2), (''name'', JStr ''Beans''),
      (''description'', JStr ''Green beans''), (''category'', JStr ''vegetables''),
      (''quantity'', JNum 40), (''unit'', JStr ''kg''), (''price'', JNum 2),
      (''currency'', JStr ''USD''), (''harvestDate'', JDate 1733011200000),
      (''expiryEstimate'', JDate 1736035200000), (''status'', JStr ''available''),
      (''location'', JObj [(''country'', JStr ''Kenya''), (''region'', JStr ''Central'')]),
      (''images'', JArr []), (''qualityCertification'', JArr []),
      (''createdAt'', JDate 1733184000000), (''updatedAt'', JDate 1733184000000),
      (''__v'', JNum 0)]"

definition db1 :: db where
  "db1 = db0\<lparr>products := [product1, product2]\<rparr>"





section \<open>Properties of the middleware\<close>

lemma stubLibs_simps [simp]:
  "jwt_verify stubLibs = stubVerify"
  "isValidObjectId stubLibs = hexId"
  "castObjectId stubLibs i = (if hexId i then Some i else None)"
  "str_trim stubLibs = stubTrim"
  "parseDate stubLibs = stubDate"
  "coerce stubLibs = stubCoerce"
  "filterOf stubLibs path v = None"
  "belowLeaf stubLibs k v"
  "deepSet stubLibs k pl sub old0 = Refused"
  "setCreatedAt stubLibs v old1 = Unchanged"
  "assignStray stubLibs k v a = Some a"
  "isModified stubLibs a a' = (a' \<noteq> a)"
  "nextVersion stubLibs a a' = None"
  "userOk stubLibs d"
  "randomSort stubLibs r xs = (xs, 0)"
  "bcrypt_hash stubLibs p = ''hashed:'' @ p"
  "jwt_sign stubLibs o' = ''signed''"
  "otherEmailFilter stubLibs em us = None"
  by (simp_all add: stubLibs_def)

lemma stub_ids [simp]:
  "hexId vendor1" "hexId vendor2" "hexId ngo1" "hexId ngo2" "hexId farmer1"
  "hexId productId1" "hexId productId2" "hexId analyticsId1" "hexId freshId"
  by (simp_all add: hexId_def)

text \<open>
  C4. \<open>protect\<close> answers 401, and the handler behind it is not run (the response and
  the state are those of the middleware alone), whenever the Authorization header is
  missing, does not start with \<open>Bearer\<close>, or carries no token that verifies (a header
  with nothing after its first space carries no token). In every other case it
  attaches the decoded \<open>{id, role}\<close> to the request and hands it to the handler.
\<close>

theorem protect_gate:
  fixes h :: "'b request \<Rightarrow> 's \<Rightarrow> response \<times> 's"
  shows
  "(authorization req = None \<or>
    (\<exists>a. authorization req = Some a \<and> \<not> startsWith a ''Bearer'') \<or>
    (\<exists>a. authorization req = Some a \<and> startsWith a ''Bearer'' \<and>
        (case headerToken a of None \<Rightarrow> True | Some t \<Rightarrow> t = [] \<or> jwt_verify L t = None))
    \<longrightarrow> (\<exists>x. status x = 401 \<and> protect L req = Respond x \<and> protected L h req s = (x, s)))
   \<and> (\<forall>a t d. authorization req = Some a \<and> startsWith a ''Bearer'' \<and> headerToken a = Some t \<and>
         t \<noteq> [] \<and> jwt_verify L t = Some d
       \<longrightarrow> protect L req = Next (req\<lparr>user := Some \<lparr>ident = ident d, role = role d\<rparr>\<rparr>) \<and>
           protected L h req s = h (req\<lparr>user := Some \<lparr>ident = ident d, role = role d\<rparr>\<rparr>) s)"
  by (auto simp: protect_def protected_def chain_def reply_def startsWith_def split: option.splits)

theorem protect_gate_witness:
  "protect stubLibs (bearer ''vendor-token'' None ()) =
     Next ((bearer ''vendor-token'' None ())\<lparr>user := Some \<lparr>ident = vendor1, role = VENDOR\<rparr>\<rparr>) \<and>
   protected stubLibs okHandler (bearer ''vendor-token'' None ()) 0 = (reply 200 JNull, 1) \<and>
   status (fst (protected stubLibs okHandler (bearer ''forged'' None ()) 0)) = 401 \<and>
   snd (protected stubLibs okHandler (bearer ''forged'' None ()) 0) = 0"
  using protect_gate [of "bearer ''vendor-token'' None ()" stubLibs okHandler 0]
        protect_gate [of "bearer ''forged'' None ()" stubLibs okHandler 0]
  by (auto simp: bearer_def startsWith_def headerToken_def at_index_def stubVerify_def okHandler_def)

text \<open>
  C5. A request that passes \<open>protect\<close> with a decoded role outside the route's allowed
  roles is answered 403 by the role gate, and the handler behind the gate is not run.
\<close>

theorem role_gate:
  fixes h :: "'b request \<Rightarrow> 's \<Rightarrow> response \<times> 's"
  assumes "protect L req = Next req'" and "user req' = Some u" and "role u \<notin> set (allowedRoles rs)"
  shows "\<exists>x. status x = 403 \<and> authorize rs req' = Respond x \<and> gated L (authorize rs) h req s = (x, s)"
  using assms by (simp add: gated_def chain_def authorize_def reply_def)

text \<open>A vendor token on the farmer-only prediction route: 403, and nothing is stored.\<close>

theorem role_gate_witness:
  "status (fst (farmerPredictions stubLibs envLow (call ''vendor-token'' None [] [] []) db0)) = 403 \<and>
   snd (farmerPredictions stubLibs envLow (call ''vendor-token'' None [] [] []) db0) = db0"
proof -
  let ?req = "call ''vendor-token'' None [] [] []"
  let ?u = "\<lparr>ident = vendor1, role = VENDOR\<rparr>"
  have p: "protect stubLibs ?req = Next (?req\<lparr>user := Some ?u\<rparr>)"
    by (simp add: protect_def call_def startsWith_def headerToken_def at_index_def stubVerify_def)
  have u: "user (?req\<lparr>user := Some ?u\<rparr>) = Some ?u" by simp
  have r: "role ?u \<notin> set (allowedRoles (One FARMER))" by simp
  from role_gate [OF p u r, of "requestNewPrediction stubLibs envLow" db0] show ?thesis
    by (auto simp: farmerPredictions_def farmerOnly_def)
qed

section \<open>Documents and collections\<close>

lemma status_reply [simp]: "status (reply c j) = c" "payload (reply c j) = j"
  by (simp_all add: reply_def)

lemma status_serverError [simp]: "status serverError = 500"
  by (simp add: serverError_def)


lemma field_Cons: "field ((k, v) # d) k' = (if k' = k then Some v else field d k')"
  by (simp add: field_def)


lemma field_dropField: "field (dropField k d) k' = (if k' = k then None else field d k')"
  by (induction d) (auto simp: dropField_def field_def)


lemma defined_keys: "k \<notin> fst ` set kvs \<Longrightarrow> field (defined kvs) k = None"
  by (induction kvs rule: defined.induct) (auto simp: field_def)

lemma field_defined:
  "distinct (map fst kvs) \<Longrightarrow>
   field (defined kvs) k = (case map_of kvs k of Some (Some v) \<Rightarrow> Some v | _ \<Rightarrow> None)"
proof (induction kvs rule: defined.induct)
  case 1
  then show ?case by (simp add: field_def)
next
  case (2 k' kvs)
  then show ?case using defined_keys [of k' kvs] by auto
next
  case (3 k' v kvs)
  then show ?case by (auto simp: field_def)
qed






section \<open>Registration\<close>

lemma find_email:
  "u \<in> set us \<Longrightarrow> field u ''email'' = Some (JStr e) \<Longrightarrow>
   \<exists>u'. find (\<lambda>u. field u ''email'' = Some (JStr e)) us = Some u'"
  by (cases "find (\<lambda>u. field u ''email'' = Some (JStr e)) us") (auto simp: find_None_iff)

text \<open>
  C6. A register request whose email is the email of a stored user is answered 400 with
  the message \<open>User already exists\<close>, and the stored state, the users in particular,
  is returned unchanged.
\<close>

theorem register_duplicate_email:
  assumes "field (body req) ''email'' = Some (JStr e)"
    and "u \<in> set (users s)" and "field u ''email'' = Some (JStr e)"
  shows "register L E req s = (reply 400 (message ''User already exists''), s)"
  using find_email [OF assms(2,3)] assms(1)
  by (auto simp: register_def findUserByEmail_def)

theorem register_duplicate_email_witness:
  "register stubLibs envLow
     (call [] None [] [] [(''name'', JStr ''Eve''), (''email'', JStr ''ada@example.org''),
        (''password'', JStr ''secret1''),
        (''location'', JObj [(''country'', JStr ''Kenya''), (''region'', JStr ''Central'')])]) db0 =
   (reply 400 (message ''User already exists''), db0)"
proof -
  let ?req = "call [] None [] [] [(''name'', JStr ''Eve''), (''email'', JStr ''ada@example.org''),
        (''password'', JStr ''secret1''),
        (''location'', JObj [(''country'', JStr ''Kenya''), (''region'', JStr ''Central'')])]"
  have 1: "field (body ?req) ''email'' = Some (JStr ''ada@example.org'')"
    by (simp add: call_def field_def)
  have 2: "user1 \<in> set (users db0)" by (simp add: db0_def)
  have 3: "field user1 ''email'' = Some (JStr ''ada@example.org'')" by (simp add: user1_def field_def)
  show ?thesis by (rule register_duplicate_email [OF 1 2 3])
qed

section \<open>Export of analytics\<close>

lemma analytics1_facts:
  "findById (analytics db0) analyticsId1 = Some analytics1"
  "includesUser analytics1 ngo1"
  "\<not> isPublic analytics1"
  by (simp_all add: db0_def findById_def hasId_def field_def analytics1_def includesUser_def
       restrictedTo_def accessRights_def isPublic_def truthyField_def)

lemma csv_format:
  "(orElse (field q ''format'') (JStr ''json'') = JStr ''csv'') = (field q ''format'' = Some (JStr ''csv''))"
  by (auto simp: orElse_def split: option.splits)

text \<open>
  C8. For an analytics record the caller may read, \<open>exportAnalyticsData\<close> with
  \<open>format=csv\<close> produces no CSV: it returns a JSON object made of a message and the
  record itself. With any other format (or none) it returns the JSON projection of
  the record: its title, description, type, timeframe, scope and metrics as stored
  (a field the record lacks is left out), its insights, recommendations and sources
  (an empty list in the place of a missing one), and the time of the export. The
  stored state is unchanged either way.
\<close>

theorem export_formats:
  assumes "headerUserId req = Some u"
    and "map_of (params req) ''analyticsId'' = Some i" and "isValidObjectId L i"
    and "findById (analytics s) i = Some a"
    and "isPublic a \<or> includesUser a u"
  shows "exportAnalyticsData L E req s =
     (if field (query req) ''format'' = Some (JStr ''csv'')
      then (reply 200 (JObj [(''message'', JStr ''CSV export would be generated here''),
                             (''data'', JObj a)]), s)
      else (reply 200 (JObj (defined
              [(''title'', field a ''title''),
               (''description'', field a ''description''),
               (''type'', field a ''type''),
               (''timeframe'', field a ''timeframe''),
               (''scope'', field a ''scope''),
               (''metrics'', field a ''metrics''),
               (''insights'', Some (orElse (field a ''insights'') (JArr []))),
               (''recommendations'', Some (orElse (field a ''recommendations'') (JArr []))),
               (''exportedAt'', Some (JDate (now E))),
               (''sources'', Some (orElse (field a ''sources'') (JArr [])))])), s))"
proof -
  from assms have "exportAnalyticsData L E req s =
     (if orElse (field (query req) ''format'') (JStr ''json'') = JStr ''csv''
      then (reply 200 (csvPlaceholder a), s) else (reply 200 (jsonExport E a), s))"
    by (auto simp: exportAnalyticsData_def Let_def)
  then show ?thesis
    by (simp only: csv_format csvPlaceholder_def jsonExport_def)
qed

theorem export_formats_witness:
  "exportAnalyticsData stubLibs envLow
     (call ''ngo-token'' (Some ngo1) [(''analyticsId'', analyticsId1)] [(''format'', JStr ''csv'')] []) db0 =
     (reply 200 (JObj [(''message'', JStr ''CSV export would be generated here''),
                       (''data'', JObj analytics1)]), db0) \<and>
   exportAnalyticsData stubLibs envLow
     (call ''ngo-token'' (Some ngo1) [(''analyticsId'', analyticsId1)] [(''format'', JStr ''xml'')] []) db0 =
     (reply 200 (JObj
        [(''title'', JStr ''Yield report''),
         (''description'', JStr ''Maize yields of the season''),
         (''type'', JStr ''yield''),
         (''timeframe'', JObj [(''start'', JDate 1704067200000), (''end'', JDate 1735603200000)]),
         (''scope'', JObj [(''country'', JStr ''Kenya''), (''cropTypes'', JArr [JStr ''maize''])]),
         (''metrics'', JArr [JObj [(''name'', JStr ''yield''), (''value'', JNum 4200),
                                  (''unit'', JStr ''kg/ha''),
                                  (''_id'', JStr ''e20000000000000000000002'')]]),
         (''insights'', JArr [JStr ''Yields rose with the long rains'']),
         (''recommendations'', JArr []),
         (''exportedAt'', JDate 1735689600000),
         (''sources'', JArr [])]), db0)"
proof -
  let ?csv = "call ''ngo-token'' (Some ngo1) [(''analyticsId'', analyticsId1)] [(''format'', JStr ''csv'')] []"
  let ?xml = "call ''ngo-token'' (Some ngo1) [(''analyticsId'', analyticsId1)] [(''format'', JStr ''xml'')] []"
  have h: "headerUserId ?csv = Some ngo1" "headerUserId ?xml = Some ngo1"
    by (simp_all add: headerUserId_def call_def)
  have p: "map_of (params ?csv) ''analyticsId'' = Some analyticsId1"
          "map_of (params ?xml) ''analyticsId'' = Some analyticsId1"
    by (simp_all add: call_def)
  have v: "isValidObjectId stubLibs analyticsId1" by simp
  have a: "isPublic analytics1 \<or> includesUser analytics1 ngo1" by (simp add: analytics1_facts)
  have q: "field (query ?csv) ''format'' = Some (JStr ''csv'')"
          "field (query ?xml) ''format'' = Some (JStr ''xml'')"
    by (simp_all add: call_def field_def)
  have f: "field analytics1 ''title'' = Some (JStr ''Yield report'')"
    "field analytics1 ''description'' = Some (JStr ''Maize yields of the season'')"
    "field analytics1 ''type'' = Some (JStr ''yield'')"
    "field analytics1 ''timeframe'' = Some (JObj [(''start'', JDate 1704067200000), (''end'', JDate 1735603200000)])"
    "field analytics1 ''scope'' = Some (JObj [(''country'', JStr ''Kenya''), (''cropTypes'', JArr [JStr ''maize''])])"
    "field analytics1 ''metrics'' = Some (JArr [JObj [(''name'', JStr ''yield''), (''value'', JNum 4200),
                                  (''unit'', JStr ''kg/ha''), (''_id'', JStr ''e20000000000000000000002'')]])"
    "field analytics1 ''insights'' = Some (JArr [JStr ''Yields rose with the long rains''])"
    "field analytics1 ''recommendations'' = Some (JArr [])"
    "field analytics1 ''sources'' = Some (JArr [])"
    by (simp_all add: analytics1_def field_def)
  have n: "now envLow = 1735689600000" by (simp add: envLow_def)
  show ?thesis
    using export_formats [OF h(1) p(1) v analytics1_facts(1) a, of envLow]
          export_formats [OF h(2) p(2) v analytics1_facts(1) a, of envLow]
    by (simp add: q f n orElse_def)
qed

section \<open>Visibility of analytics\<close>

lemma atPath2: "atPath a [''accessRights'', k] = field (accessRights a) k"
  by (auto simp: accessRights_def field_def split: option.splits json.splits)

text \<open>
  C3. An analytics record whose \<open>accessRights.public\<close> is false and whose
  \<open>restrictedTo\<close> does not hold the caller's user id (or is missing) is invisible to
  that caller: no list returned by \<open>getAnalytics\<close> contains it, and
  \<open>getAnalyticsById\<close> and \<open>exportAnalyticsData\<close> on its id answer 403 and return
  nothing of it. The caller is one whose \<open>user-id\<close> header is present.
\<close>

theorem private_analytics_invisible:
  assumes "headerUserId req = Some u"
    and "field (accessRights a) ''public'' = Some (JBool False)"
    and "field (accessRights a) ''restrictedTo'' = None \<or>
         (\<exists>xs. field (accessRights a) ''restrictedTo'' = Some (JArr xs) \<and> JStr u \<notin> set xs)"
  shows "(\<forall>xs. payload (fst (getAnalytics L req s)) = JArr xs \<longrightarrow> JObj a \<notin> set xs) \<and>
         (\<forall>i. map_of (params req) ''analyticsId'' = Some i \<and> isValidObjectId L i \<and>
               findById (analytics s) i = Some a \<longrightarrow>
            getAnalyticsById L req s = (reply 403 (message ''Not authorized to access these analytics''), s) \<and>
            exportAnalyticsData L E req s = (reply 403 (message ''Not authorized to access these analytics''), s))"
proof -
  have hidden: "\<not> matchesAny (accessFilter u) a"
    using assms(2,3) by (auto simp: matchesAny_def accessFilter_def atPath2 simp del: atPath.simps)
  have np: "\<not> isPublic a" using assms(2) by (simp add: isPublic_def truthyField_def)
  have ni: "\<not> includesUser a u"
    using assms(3) by (auto simp: includesUser_def restrictedTo_def)
  have list: "\<forall>xs. payload (fst (getAnalytics L req s)) = JArr xs \<longrightarrow> JObj a \<notin> set xs"
    using assms(1) hidden
    by (auto simp: getAnalytics_def newestFirst_def message_def serverError_def split: option.splits)
  show ?thesis
    using list np ni assms(1)
    by (simp add: getAnalyticsById_def exportAnalyticsData_def Let_def)
qed

lemma no_filters:
  "query req = [] \<Longrightarrow> analyticsFilters L req = Some []"
  by (simp add: analyticsFilters_def allOf_def optFilter_def cropTypeFilter_def dateFilter_def
        queryParam_def orUndefined_def field_def)

theorem private_analytics_invisible_witness:
  "payload (fst (getAnalytics stubLibs (call ''ngo-token'' (Some ngo2) [(''analyticsId'', analyticsId1)] [] []) db0)) = JArr [] \<and>
   getAnalyticsById stubLibs (call ''ngo-token'' (Some ngo2) [(''analyticsId'', analyticsId1)] [] []) db0 =
     (reply 403 (message ''Not authorized to access these analytics''), db0) \<and>
   exportAnalyticsData stubLibs envLow (call ''ngo-token'' (Some ngo2) [(''analyticsId'', analyticsId1)] [] []) db0 =
     (reply 403 (message ''Not authorized to access these analytics''), db0)"
proof -
  let ?req = "call ''ngo-token'' (Some ngo2) [(''analyticsId'', analyticsId1)] [] []"
  have h: "headerUserId ?req = Some ngo2" by (simp add: headerUserId_def call_def)
  have ar: "accessRights analytics1 = [(''public'', JBool False), (''restrictedTo'', JArr [JStr ngo1])]"
    by (simp add: accessRights_def analytics1_def field_def)
  have p: "field (accessRights analytics1) ''public'' = Some (JBool False)"
    by (simp add: ar field_def)
  have l: "field (accessRights analytics1) ''restrictedTo'' = None \<or>
           (\<exists>xs. field (accessRights analytics1) ''restrictedTo'' = Some (JArr xs) \<and> JStr ngo2 \<notin> set xs)"
    by (simp add: ar field_def)
  have f: "map_of (params ?req) ''analyticsId'' = Some analyticsId1 \<and> isValidObjectId stubLibs analyticsId1 \<and>
           findById (analytics db0) analyticsId1 = Some analytics1"
    by (simp add: call_def analytics1_facts)
  have q: "analyticsFilters stubLibs ?req = Some []"
    by (rule no_filters) (simp add: call_def)
  have g: "payload (fst (getAnalytics stubLibs ?req db0)) = JArr []"
    by (simp add: getAnalytics_def h q db0_def matchesAll_def matchesAny_def accessFilter_def atPath2 ar
          field_def newestFirst_def del: atPath.simps)
  from private_analytics_invisible [OF h p l, of stubLibs db0 envLow] f g
  show ?thesis by simp
qed

section \<open>Whose identity the role-restricted handlers use\<close>

lemma vendorHandler_ignores_user:
  "vendorHandler L E route (req\<lparr>user := x\<rparr>) s = vendorHandler L E route req s"
  by (cases route)
     (simp_all add: listProducts_def getProductById_def createProduct_def updateProduct_def
        deleteProduct_def getSpoilageRisks_def getDemandForecasts_def headerUserId_def
        queryParam_def productFilters_def optFilter_def Let_def
        cong: option.case_cong json.case_cong if_cong)

lemma ngoHandler_ignores_user:
  "ngoHandler L E route (req\<lparr>user := x\<rparr>) s = ngoHandler L E route req s"
  by (cases route)
     (simp_all add: getAnalytics_def getAnalyticsById_def createAnalytics_def updateAnalytics_def
        deleteAnalytics_def exportAnalyticsData_def headerUserId_def queryParam_def
        analyticsFilters_def optFilter_def cropTypeFilter_def dateFilter_def Let_def
        cong: option.case_cong json.case_cong if_cong)

lemma protect_accepts:
  assumes "authorization req = Some a" and "startsWith a ''Bearer''" and "headerToken a = Some t"
    and "t \<noteq> []" and "jwt_verify L t = Some d"
  shows "protect L req = Next (req\<lparr>user := Some \<lparr>ident = ident d, role = role d\<rparr>\<rparr>)"
  using assms by (auto simp: protect_def startsWith_def)

lemma gated_pass:
  assumes "protect L req = Next (req\<lparr>user := Some u\<rparr>)" and "role u \<in> set (allowedRoles rs)"
  shows "gated L (authorize rs) h req s = h (req\<lparr>user := Some u\<rparr>) s"
  using assms by (simp add: gated_def chain_def authorize_def)

lemma vendor_without_header:
  "headerUserId req = None \<Longrightarrow> route \<noteq> GetProductById \<Longrightarrow>
   vendorHandler L E route req s = (reply 401 (message ''Not authorized''), s)"
  by (cases route)
     (simp_all add: listProducts_def createProduct_def updateProduct_def deleteProduct_def
        getSpoilageRisks_def getDemandForecasts_def)

lemma ngo_without_header:
  "headerUserId req = None \<Longrightarrow>
   ngoHandler L E route req s = (reply 401 (message ''Not authorized''), s)"
  by (cases route)
     (simp_all add: getAnalytics_def getAnalyticsById_def createAnalytics_def updateAnalytics_def
        deleteAnalytics_def exportAnalyticsData_def Let_def)

lemma deleteProduct_by_header:
  assumes "headerUserId req = Some h" and "map_of (params req) ''productId'' = Some i"
    and "isValidObjectId L i" and "findById (products s) i = Some p"
    and "field p ''seller'' = Some (JStr seller)"
  shows "deleteProduct L req s =
           (if h = seller
            then (reply 200 (message ''Product removed''), s\<lparr>products := deleteById i (products s)\<rparr>)
            else (reply 403 (message ''Not authorized to delete this product''), s))"
  using assms by (simp add: deleteProduct_def)

lemma private_record:
  assumes "field (accessRights a) ''public'' = Some (JBool False)"
    and "field (accessRights a) ''restrictedTo'' = Some (JArr xs)"
  shows "\<not> isPublic a" and "includesUser a h = (JStr h \<in> set xs)"
  using assms by (simp_all add: isPublic_def truthyField_def includesUser_def restrictedTo_def)

lemma getAnalyticsById_by_header:
  assumes "headerUserId req = Some h" and "map_of (params req) ''analyticsId'' = Some j"
    and "isValidObjectId L j" and "findById (analytics s) j = Some a"
    and "field (accessRights a) ''public'' = Some (JBool False)"
    and "field (accessRights a) ''restrictedTo'' = Some (JArr xs)"
  shows "getAnalyticsById L req s =
           (if JStr h \<in> set xs then (reply 200 (JObj a), s)
            else (reply 403 (message ''Not authorized to access these analytics''), s))"
  using assms(1-4) private_record(1) [OF assms(5,6)] private_record(2) [OF assms(5,6), where h = h] by (simp add: getAnalyticsById_def)

lemma deleteAnalytics_by_header:
  assumes "headerUserId req = Some h" and "map_of (params req) ''analyticsId'' = Some j"
    and "isValidObjectId L j" and "findById (analytics s) j = Some a"
    and "field (accessRights a) ''public'' = Some (JBool False)"
    and "field (accessRights a) ''restrictedTo'' = Some (JArr xs)"
  shows "deleteAnalytics L req s =
           (if JStr h \<in> set xs
            then (reply 200 (message ''Analytics removed''), s\<lparr>analytics := deleteById j (analytics s)\<rparr>)
            else (reply 403 (message ''Not authorized to delete these analytics''), s))"
  using assms(1-4) private_record(1) [OF assms(5,6)] private_record(2) [OF assms(5,6), where h = h] by (simp add: deleteAnalytics_def)

text \<open>
  C2. Behind a token that verifies, the vendor and the NGO handlers take the caller
  from the \<open>user-id\<close> header and not from the token. Every vendor and every NGO route
  answers what its handler answers on the request with no verified identity attached.
  Without the header the token alone is refused (401) by every NGO route and by every
  vendor route but the anonymous \<open>getProductById\<close>. With the header, the ownership
  check of \<open>deleteProduct\<close> compares the product's seller with the header value, and
  the access checks of \<open>getAnalyticsById\<close> and \<open>deleteAnalytics\<close> on a private
  record look the header value up in \<open>restrictedTo\<close>: under one and the same token
  the answer changes with the header.
\<close>

theorem identity_from_header:
  assumes "authorization req = Some a" and "startsWith a ''Bearer''" and "headerToken a = Some t"
    and "t \<noteq> []" and "jwt_verify L t = Some d"
  shows "(role d = VENDOR \<longrightarrow>
            vendorRoutes L E vroute req s = vendorHandler L E vroute (req\<lparr>user := None\<rparr>) s) \<and>
         (role d = NGO \<longrightarrow>
            ngoRoutes L E nroute req s = ngoHandler L E nroute (req\<lparr>user := None\<rparr>) s) \<and>
         (role d = VENDOR \<and> headerUserId req = None \<and> vroute \<noteq> GetProductById \<longrightarrow>
            vendorRoutes L E vroute req s = (reply 401 (message ''Not authorized''), s)) \<and>
         (role d = NGO \<and> headerUserId req = None \<longrightarrow>
            ngoRoutes L E nroute req s = (reply 401 (message ''Not authorized''), s)) \<and>
         (role d = VENDOR \<and> headerUserId req = Some h \<and>
          map_of (params req) ''productId'' = Some i \<and> isValidObjectId L i \<and>
          findById (products s) i = Some p \<and> field p ''seller'' = Some (JStr seller) \<longrightarrow>
            vendorRoutes L E DeleteProduct req s =
              (if h = seller
               then (reply 200 (message ''Product removed''), s\<lparr>products := deleteById i (products s)\<rparr>)
               else (reply 403 (message ''Not authorized to delete this product''), s))) \<and>
         (role d = NGO \<and> headerUserId req = Some h \<and>
          map_of (params req) ''analyticsId'' = Some j \<and> isValidObjectId L j \<and>
          findById (analytics s) j = Some an \<and>
          field (accessRights an) ''public'' = Some (JBool False) \<and>
          field (accessRights an) ''restrictedTo'' = Some (JArr xs) \<longrightarrow>
            ngoRoutes L E GetAnalyticsById req s =
              (if JStr h \<in> set xs then (reply 200 (JObj an), s)
               else (reply 403 (message ''Not authorized to access these analytics''), s)) \<and>
            ngoRoutes L E DeleteAnalytics req s =
              (if JStr h \<in> set xs
               then (reply 200 (message ''Analytics removed''), s\<lparr>analytics := deleteById j (analytics s)\<rparr>)
               else (reply 403 (message ''Not authorized to delete these analytics''), s)))"
proof -
  let ?u = "\<lparr>ident = ident d, role = role d\<rparr>"
  note p = protect_accepts [OF assms]
  have v: "role d = VENDOR \<Longrightarrow> vendorRoutes L E r req s = vendorHandler L E r req s" for r
    using gated_pass [OF p, of "One VENDOR" "vendorHandler L E r" s]
          vendorHandler_ignores_user [where req = req and x = "Some ?u"]
    by (simp add: vendorRoutes_def vendorOnly_def)
  have n: "role d = NGO \<Longrightarrow> ngoRoutes L E r req s = ngoHandler L E r req s" for r
    using gated_pass [OF p, of "One NGO" "ngoHandler L E r" s]
          ngoHandler_ignores_user [where req = req and x = "Some ?u"]
    by (simp add: ngoRoutes_def ngoOnly_def)
  have 1: "role d = VENDOR \<longrightarrow>
            vendorRoutes L E vroute req s = vendorHandler L E vroute (req\<lparr>user := None\<rparr>) s"
    using v [of vroute] vendorHandler_ignores_user [where req = req and x = None] by simp
  have 2: "role d = NGO \<longrightarrow>
            ngoRoutes L E nroute req s = ngoHandler L E nroute (req\<lparr>user := None\<rparr>) s"
    using n [of nroute] ngoHandler_ignores_user [where req = req and x = None] by simp
  have 3: "role d = VENDOR \<and> headerUserId req = None \<and> vroute \<noteq> GetProductById \<longrightarrow>
            vendorRoutes L E vroute req s = (reply 401 (message ''Not authorized''), s)"
    using v [of vroute] vendor_without_header [where req = req and route = vroute and L = L and E = E and s = s] by simp
  have 4: "role d = NGO \<and> headerUserId req = None \<longrightarrow>
            ngoRoutes L E nroute req s = (reply 401 (message ''Not authorized''), s)"
    using n [of nroute] ngo_without_header [where req = req and route = nroute and L = L and E = E and s = s] by simp
  have 5: "role d = VENDOR \<and> headerUserId req = Some h \<and>
          map_of (params req) ''productId'' = Some i \<and> isValidObjectId L i \<and>
          findById (products s) i = Some p \<and> field p ''seller'' = Some (JStr seller) \<longrightarrow>
            vendorRoutes L E DeleteProduct req s =
              (if h = seller
               then (reply 200 (message ''Product removed''), s\<lparr>products := deleteById i (products s)\<rparr>)
               else (reply 403 (message ''Not authorized to delete this product''), s))"
    using v [of DeleteProduct] deleteProduct_by_header [where req = req and h = h and i = i and L = L and s = s and p = p and seller = seller] by simp
  have 6: "role d = NGO \<and> headerUserId req = Some h \<and>
          map_of (params req) ''analyticsId'' = Some j \<and> isValidObjectId L j \<and>
          findById (analytics s) j = Some an \<and>
          field (accessRights an) ''public'' = Some (JBool False) \<and>
          field (accessRights an) ''restrictedTo'' = Some (JArr xs) \<longrightarrow>
            ngoRoutes L E GetAnalyticsById req s =
              (if JStr h \<in> set xs then (reply 200 (JObj an), s)
               else (reply 403 (message ''Not authorized to access these analytics''), s)) \<and>
            ngoRoutes L E DeleteAnalytics req s =
              (if JStr h \<in> set xs
               then (reply 200 (message ''Analytics removed''), s\<lparr>analytics := deleteById j (analytics s)\<rparr>)
               else (reply 403 (message ''Not authorized to delete these analytics''), s))"
    using n [of GetAnalyticsById] n [of DeleteAnalytics]
          getAnalyticsById_by_header [where req = req and h = h and j = j and L = L and s = s and a = an and xs = xs]
          deleteAnalytics_by_header [where req = req and h = h and j = j and L = L and s = s and a = an and xs = xs]
    by simp
  from 1 2 3 4 5 6 show ?thesis by (intro conjI)
qed

text \<open>
  Under the token of the first vendor, the header of the second vendor deletes the
  second vendor's product and the header of the first is refused; under the token of
  the first NGO user, the header of that user reads the private record, the header of
  another user is refused, and no header at all is answered 401.
\<close>

theorem identity_from_header_witness:
  "vendorRoutes stubLibs envLow DeleteProduct
     (call ''vendor-token'' (Some vendor2) [(''productId'', productId2)] [] []) db1 =
     (reply 200 (message ''Product removed''), db1\<lparr>products := [product1]\<rparr>) \<and>
   vendorRoutes stubLibs envLow DeleteProduct
     (call ''vendor-token'' (Some vendor1) [(''productId'', productId2)] [] []) db1 =
     (reply 403 (message ''Not authorized to delete this product''), db1) \<and>
   ngoRoutes stubLibs envLow GetAnalyticsById
     (call ''ngo-token'' (Some ngo1) [(''analyticsId'', analyticsId1)] [] []) db0 =
     (reply 200 (JObj analytics1), db0) \<and>
   ngoRoutes stubLibs envLow GetAnalyticsById
     (call ''ngo-token'' (Some ngo2) [(''analyticsId'', analyticsId1)] [] []) db0 =
     (reply 403 (message ''Not authorized to access these analytics''), db0) \<and>
   ngoRoutes stubLibs envLow GetAnalyticsById
     (call ''ngo-token'' None [(''analyticsId'', analyticsId1)] [] []) db0 =
     (reply 401 (message ''Not authorized''), db0)"
proof -
  let ?v2 = "call ''vendor-token'' (Some vendor2) [(''productId'', productId2)] [] []"
  let ?v1 = "call ''vendor-token'' (Some vendor1) [(''productId'', productId2)] [] []"
  let ?n1 = "call ''ngo-token'' (Some ngo1) [(''analyticsId'', analyticsId1)] [] []"
  let ?n2 = "call ''ngo-token'' (Some ngo2) [(''analyticsId'', analyticsId1)] [] []"
  let ?n0 = "call ''ngo-token'' None [(''analyticsId'', analyticsId1)] [] []"
  have av: "authorization ?v2 = Some ''Bearer vendor-token''" "authorization ?v1 = Some ''Bearer vendor-token''"
    and an: "authorization ?n1 = Some ''Bearer ngo-token''" "authorization ?n2 = Some ''Bearer ngo-token''"
      "authorization ?n0 = Some ''Bearer ngo-token''"
    by (simp_all add: call_def)
  have b: "startsWith ''Bearer vendor-token'' ''Bearer''" "startsWith ''Bearer ngo-token'' ''Bearer''"
    by (simp_all add: startsWith_def)
  have t: "headerToken ''Bearer vendor-token'' = Some ''vendor-token''"
    "headerToken ''Bearer ngo-token'' = Some ''ngo-token''"
    by (simp_all add: headerToken_def at_index_def)
  have ne: "''vendor-token'' \<noteq> []" "''ngo-token'' \<noteq> []" by simp_all
  have d: "jwt_verify stubLibs ''vendor-token'' = Some \<lparr>ident = vendor1, role = VENDOR\<rparr>"
    "jwt_verify stubLibs ''ngo-token'' = Some \<lparr>ident = ngo1, role = NGO\<rparr>"
    by (simp_all add: stubVerify_def)
  have f: "findById (products db1) productId2 = Some product2"
    "field product2 ''seller'' = Some (JStr vendor2)"
    "deleteById productId2 (products db1) = [product1]"
    by (simp_all add: db1_def findById_def hasId_def field_def product1_def product2_def deleteById_def)
  have ar: "field (accessRights analytics1) ''public'' = Some (JBool False)"
    "field (accessRights analytics1) ''restrictedTo'' = Some (JArr [JStr ngo1])"
    by (simp_all add: accessRights_def analytics1_def field_def)
  have h: "headerUserId ?v2 = Some vendor2" "headerUserId ?v1 = Some vendor1"
    "headerUserId ?n1 = Some ngo1" "headerUserId ?n2 = Some ngo2" "headerUserId ?n0 = None"
    by (simp_all add: headerUserId_def call_def)
  have pv: "map_of (params ?v2) ''productId'' = Some productId2"
    "map_of (params ?v1) ''productId'' = Some productId2"
    and pn: "map_of (params ?n1) ''analyticsId'' = Some analyticsId1"
    "map_of (params ?n2) ''analyticsId'' = Some analyticsId1"
    by (simp_all add: call_def)
  have ok: "isValidObjectId stubLibs productId2" "isValidObjectId stubLibs analyticsId1" by simp_all
  have 1: "vendorRoutes stubLibs envLow DeleteProduct ?v2 db1 =
     (reply 200 (message ''Product removed''), db1\<lparr>products := [product1]\<rparr>)"
    using identity_from_header [where s = db1 and E = envLow and i = productId2 and p = product2
      and seller = vendor2 and h = vendor2, OF av(1) b(1) t(1) ne(1) d(1), THEN conjunct2, THEN conjunct2, THEN conjunct2, THEN conjunct2, THEN conjunct1] h(1) pv(1) ok(1) f by simp
  have 2: "vendorRoutes stubLibs envLow DeleteProduct ?v1 db1 =
     (reply 403 (message ''Not authorized to delete this product''), db1)"
    using identity_from_header [where s = db1 and E = envLow and i = productId2 and p = product2
      and seller = vendor2 and h = vendor1, OF av(2) b(1) t(1) ne(1) d(1), THEN conjunct2, THEN conjunct2, THEN conjunct2, THEN conjunct2, THEN conjunct1] h(2) pv(2) ok(1) f by simp
  have 3: "ngoRoutes stubLibs envLow GetAnalyticsById ?n1 db0 = (reply 200 (JObj analytics1), db0)"
    using identity_from_header [where s = db0 and E = envLow and j = analyticsId1 and an = analytics1
      and xs = "[JStr ngo1]" and h = ngo1, OF an(1) b(2) t(2) ne(2) d(2), THEN conjunct2, THEN conjunct2, THEN conjunct2, THEN conjunct2, THEN conjunct2]
      h(3) pn(1) ok(2) analytics1_facts(1) ar
    by simp
  have 4: "ngoRoutes stubLibs envLow GetAnalyticsById ?n2 db0 =
     (reply 403 (message ''Not authorized to access these analytics''), db0)"
    using identity_from_header [where s = db0 and E = envLow and j = analyticsId1 and an = analytics1
      and xs = "[JStr ngo1]" and h = ngo2, OF an(2) b(2) t(2) ne(2) d(2), THEN conjunct2, THEN conjunct2, THEN conjunct2, THEN conjunct2, THEN conjunct2]
      h(4) pn(2) ok(2) analytics1_facts(1) ar
    by simp
  have 5: "ngoRoutes stubLibs envLow GetAnalyticsById ?n0 db0 = (reply 401 (message ''Not authorized''), db0)"
    using identity_from_header [where s = db0 and E = envLow and nroute = GetAnalyticsById,
      OF an(3) b(2) t(2) ne(2) d(2), THEN conjunct2, THEN conjunct2, THEN conjunct2, THEN conjunct1] h(5) by simp
  from 1 2 3 4 5 show ?thesis by (intro conjI)
qed

section \<open>What the store writes\<close>

lemma castFields_keys: "castFields L E sch doc = Some d \<Longrightarrow> k \<notin> fst ` set sch \<Longrightarrow> field d k = None"
proof (induction sch arbitrary: d)
  case Nil
  then show ?case by (simp add: field_def)
next
  case (Cons kt sch)
  obtain k0 t0 where kt: "kt = (k0, t0)" by (cases kt)
  from Cons.prems kt show ?case
    by (auto simp: field_Cons dest: Cons.IH split: option.splits)
qed







section \<open>Updating a product\<close>








lemma setPath_updatedAt: "setPath L E kvs ''updatedAt'' SDate old \<noteq> Becomes v"
  by (simp add: setPath_def)







section \<open>The status of a product\<close>









section \<open>Which outputs are random\<close>

lemma expiryEstimate_ignores_draws: "expiryEstimate L (E\<lparr>rand := r'\<rparr>) p = expiryEstimate L E p"
  by (simp add: expiryEstimate_def split: option.splits)

lemma spoilageRisk_ignores_draws: "spoilageRisk L (E\<lparr>rand := r'\<rparr>) = spoilageRisk L E"
  by (rule ext) (simp add: spoilageRisk_def expiryEstimate_ignores_draws)

lemma spoilage_ignores_draws:
  "getSpoilageRisks L (E\<lparr>rand := r'\<rparr>) req s = getSpoilageRisks L E req s"
  by (simp add: getSpoilageRisks_def spoilageRisk_ignores_draws split: option.splits)

lemma demandScore_drawn:
  "field (fst (demandForecast L E n c)) ''demandScore'' = Some (JNum (rand E n))"
  "field (fst (demandForecast L E n c)) ''category'' = Some (JStr c)"
  by (simp_all add: demandForecast_def Let_def field_def split: prod.splits)

lemma forecasts_head:
  "\<exists>rest. mockForecasts L E 0 productCategories = fst (demandForecast L E 0 ''fruits'') # rest"
  by (simp add: productCategories_def split: prod.splits)

lemma forecasts_differ:
  assumes "rand E 0 \<noteq> rand E' 0"
  shows "mockForecasts L E 0 productCategories \<noteq> mockForecasts L E' 0 productCategories"
proof
  assume eq: "mockForecasts L E 0 productCategories = mockForecasts L E' 0 productCategories"
  from forecasts_head [of L E] obtain rest where
    1: "mockForecasts L E 0 productCategories = fst (demandForecast L E 0 ''fruits'') # rest" by blast
  from forecasts_head [of L E'] obtain rest' where
    2: "mockForecasts L E' 0 productCategories = fst (demandForecast L E' 0 ''fruits'') # rest'" by blast
  from eq 1 2 have "fst (demandForecast L E 0 ''fruits'') = fst (demandForecast L E' 0 ''fruits'')"
    by simp
  then have "field (fst (demandForecast L E 0 ''fruits'')) ''demandScore'' =
             field (fst (demandForecast L E' 0 ''fruits'')) ''demandScore''" by simp
  with assms show False by (simp add: demandScore_drawn)
qed

lemma spoilage_entry:
  assumes "field p ''expiryEstimate'' = Some (JDate t)"
  shows "field (spoilageRisk L E p) ''productId'' = field p ''_id''"
    and "field (spoilageRisk L E p) ''daysUntilExpiry'' = Some (JNum (of_int ((t - now E) div 86400000)))"
    and "field (spoilageRisk L E p) ''riskScore'' =
           Some (JNum (if (t - now E) div 86400000 < 3 then 9 / 10
                       else if (t - now E) div 86400000 < 7 then 7 / 10
                       else if (t - now E) div 86400000 < 14 then 4 / 10
                       else 1 / 10))"
  using assms
  by (simp_all add: spoilageRisk_def expiryEstimate_def daysUntil_def riskOf_def Let_def
        field_defined split: prod.splits option.splits del: defined.simps)

lemma spoilage_listed:
  assumes "headerUserId req = Some h" and "castObjectId L h = Some seller"
    and "p \<in> set (products s)" and "field p ''seller'' = Some (JStr seller)"
    and "field p ''status'' = Some (JStr st)" and "st \<noteq> ''sold''"
  shows "\<exists>xs. getSpoilageRisks L E req s = (reply 200 (JArr xs), s) \<and> JObj (spoilageRisk L E p) \<in> set xs"
  using assms by (auto simp: getSpoilageRisks_def matchesAll_def)

text \<open>
  \<open>YieldPrediction.create\<close> rejects every mock prediction: the schema makes
  \<open>recommendations.fertilizers\<close> an array of strings, and the mock puts an object
  in it, which does not cast to a string. So \<open>requestNewPrediction\<close> never stores a
  prediction and never answers 201, whatever is drawn.
\<close>

lemma castFields_casts:
  assumes "castFields L E sch doc = Some d" and "(k, t) \<in> set sch" and "field doc k = Some v"
  shows "cast L E t v \<noteq> None"
  using assms
proof (induction sch arbitrary: d)
  case Nil
  then show ?case by simp
next
  case (Cons kt sch)
  obtain k0 t0 where kt: "kt = (k0, t0)" by (cases kt)
  show ?case
  proof (cases "(k, t) = (k0, t0)")
    case True
    with Cons.prems kt show ?thesis by (auto split: option.splits)
  next
    case False
    with Cons.prems(2) kt have mem: "(k, t) \<in> set sch" by auto
    from Cons.prems(1) kt obtain d0 where "castFields L E sch doc = Some d0"
      by (auto split: option.splits)
    from Cons.IH [OF this mem Cons.prems(3)] show ?thesis .
  qed
qed

lemma mockPrediction_rejected:
  "create L E (yieldPredictionSchema @ [(''createdAt'', SDate)]) df vd (mockPrediction E b farm) coll = None"
proof (cases "castFields L E (yieldPredictionSchema @ [(''createdAt'', SDate)]) (mockPrediction E b farm)")
  case None
  then show ?thesis by (simp add: create_def)
next
  case (Some d)
  let ?recs = "[(''irrigationSchedule'', JStr ''Twice weekly, 20mm per session''),
             (''fertilizers'', JArr [JObj
                [(''type'', JStr ''Nitrogen-rich''),
                 (''amount'', JNum 50),
                 (''unit'', JStr ''kg/ha''),
                 (''applicationTime'', JStr ''Every 2 weeks'')]]),
             (''pestManagement'', JArr [JStr ''Monitor for pests regularly'',
                                        JStr ''Use organic pesticides if needed'']),
             (''harvestingDate'', JDate (now E + \<lfloor>rand E 8 * 7776000000\<rfloor>))]"
  let ?t = "SNested
         [(''irrigationSchedule'', SString False),
          (''fertilizers'', SArray (SString False)),
          (''pestControl'', SArray (SString False)),
          (''harvestTime'', SDate)]"
  have m: "(''recommendations'', ?t) \<in> set (yieldPredictionSchema @ [(''createdAt'', SDate)])"
    by (simp add: yieldPredictionSchema_def)
  have f: "field (mockPrediction E b farm) ''recommendations'' = Some (JObj ?recs)"
    by (simp add: mockPrediction_def Let_def field_defined del: defined.simps)
  have "cast L E ?t (JObj ?recs) = None"
    by (simp add: field_def castString_def trimIf_def)
  with castFields_casts [OF Some m f] show ?thesis by simp
qed

lemma requestNewPrediction_stores_nothing:
  "snd (requestNewPrediction L E req s) = s \<and> status (fst (requestNewPrediction L E req s)) \<noteq> 201"
  by (simp add: requestNewPrediction_def mockPrediction_rejected predictionError_def
        split: option.splits)

text \<open>
  C7, as stated, fails for \<open>getSpoilageRisks\<close>: nothing in it is drawn at random.
  Two runs on the same state, request and clock whose random draws all differ return
  the same response, a threshold table on the days left until the expiry estimate.
\<close>

theorem spoilage_risk_counterexample:
  "rand envLow 0 \<noteq> rand envHigh 0 \<and>
   getSpoilageRisks stubLibs envLow (call ''vendor-token'' (Some vendor1) [] [] []) db0 =
   getSpoilageRisks stubLibs envHigh (call ''vendor-token'' (Some vendor1) [] [] []) db0 \<and>
   payload (fst (getSpoilageRisks stubLibs envLow (call ''vendor-token'' (Some vendor1) [] [] []) db0)) =
     JArr [JObj [(''productId'', JStr productId1), (''productName'', JStr ''Maize''),
                 (''expiryDate'', JDate 1736035200000), (''daysUntilExpiry'', JNum 4),
                 (''riskScore'', JNum (7 / 10)), (''riskLevel'', JStr ''high''),
                 (''recommendations'', JArr [JStr ''Adjust storage conditions to extend shelf life'',
                    JStr ''Consider promotional pricing'',
                    JStr ''Move to high-visibility marketplace location''])]]"
  by (simp add: getSpoilageRisks_def headerUserId_def call_def db0_def matchesAll_def field_def
        product1_def spoilageRisk_def expiryEstimate_def daysUntil_def riskOf_def envLow_def
        envHigh_def drawsLow_def drawsHigh_def Let_def)

text \<open>
  C7, amended. \<open>getDemandForecasts\<close> returns random placeholder values: it answers
  200 with one forecast per category, the demand score of the first being the first
  draw, so that on the same stored state and request two runs return different
  responses whenever their first draws differ. \<open>getSpoilageRisks\<close> does not depend
  on the draws at all: for a product of the caller that is not sold and has an expiry
  date, the risk entry holds the whole days from the clock to that date and the score
  0.9, 0.7, 0.4 or 0.1 as the days are fewer than 3, 7, 14, or more.
\<close>

theorem mock_outputs_randomness:
  "(headerUserId req = Some h \<longrightarrow>
      (\<exists>f fs. getDemandForecasts L E req s = (reply 200 (JArr (JObj f # fs)), s) \<and>
         field f ''category'' = Some (JStr ''fruits'') \<and>
         field f ''demandScore'' = Some (JNum (rand E 0))) \<and>
      (rand E 0 \<noteq> r' 0 \<longrightarrow>
         fst (getDemandForecasts L E req s) \<noteq> fst (getDemandForecasts L (E\<lparr>rand := r'\<rparr>) req s))) \<and>
   getSpoilageRisks L (E\<lparr>rand := r'\<rparr>) req s = getSpoilageRisks L E req s \<and>
   (headerUserId req = Some h \<and> castObjectId L h = Some seller \<and> p \<in> set (products s) \<and>
    field p ''seller'' = Some (JStr seller) \<and> field p ''status'' = Some (JStr st) \<and> st \<noteq> ''sold'' \<and>
    field p ''expiryEstimate'' = Some (JDate t) \<longrightarrow>
      (\<exists>xs e. getSpoilageRisks L E req s = (reply 200 (JArr xs), s) \<and> JObj e \<in> set xs \<and>
         field e ''productId'' = field p ''_id'' \<and>
         field e ''daysUntilExpiry'' = Some (JNum (of_int ((t - now E) div 86400000))) \<and>
         field e ''riskScore'' =
           Some (JNum (if (t - now E) div 86400000 < 3 then 9 / 10
                       else if (t - now E) div 86400000 < 7 then 7 / 10
                       else if (t - now E) div 86400000 < 14 then 4 / 10
                       else 1 / 10))))"
proof (intro conjI impI)
  assume h: "headerUserId req = Some h"
  from forecasts_head [of L E] obtain rest where
    fs: "mockForecasts L E 0 productCategories = fst (demandForecast L E 0 ''fruits'') # rest" by blast
  from h fs demandScore_drawn [of L E 0 "''fruits''"]
  show "\<exists>f fs. getDemandForecasts L E req s = (reply 200 (JArr (JObj f # fs)), s) \<and>
         field f ''category'' = Some (JStr ''fruits'') \<and>
         field f ''demandScore'' = Some (JNum (rand E 0))"
    by (intro exI [of _ "fst (demandForecast L E 0 ''fruits'')"] exI [of _ "map JObj rest"])
       (simp add: getDemandForecasts_def)
next
  assume h: "headerUserId req = Some h" and ne: "rand E 0 \<noteq> r' 0"
  from ne have "rand E 0 \<noteq> rand (E\<lparr>rand := r'\<rparr>) 0" by simp
  have "inj JObj" by (simp add: inj_def)
  from forecasts_differ [OF \<open>rand E 0 \<noteq> rand (E\<lparr>rand := r'\<rparr>) 0\<close>, of L] h inj_map_eq_map [OF this]
  show "fst (getDemandForecasts L E req s) \<noteq> fst (getDemandForecasts L (E\<lparr>rand := r'\<rparr>) req s)"
    by (simp add: getDemandForecasts_def reply_def)
next
  show "getSpoilageRisks L (E\<lparr>rand := r'\<rparr>) req s = getSpoilageRisks L E req s"
    by (rule spoilage_ignores_draws)
next
  assume a: "headerUserId req = Some h \<and> castObjectId L h = Some seller \<and> p \<in> set (products s) \<and>
    field p ''seller'' = Some (JStr seller) \<and> field p ''status'' = Some (JStr st) \<and> st \<noteq> ''sold'' \<and>
    field p ''expiryEstimate'' = Some (JDate t)"
  then have 1: "headerUserId req = Some h" and 2: "castObjectId L h = Some seller"
    and 3: "p \<in> set (products s)" and 4: "field p ''seller'' = Some (JStr seller)"
    and 5: "field p ''status'' = Some (JStr st)" and 6: "st \<noteq> ''sold''"
    and 7: "field p ''expiryEstimate'' = Some (JDate t)"
    by simp_all
  from spoilage_listed [OF 1 2 3 4 5 6, of E] obtain xs where
    xs: "getSpoilageRisks L E req s = (reply 200 (JArr xs), s)" "JObj (spoilageRisk L E p) \<in> set xs"
    by blast
  from xs spoilage_entry [OF 7, of L E]
  show "\<exists>xs e. getSpoilageRisks L E req s = (reply 200 (JArr xs), s) \<and> JObj e \<in> set xs \<and>
         field e ''productId'' = field p ''_id'' \<and>
         field e ''daysUntilExpiry'' = Some (JNum (of_int ((t - now E) div 86400000))) \<and>
         field e ''riskScore'' =
           Some (JNum (if (t - now E) div 86400000 < 3 then 9 / 10
                       else if (t - now E) div 86400000 < 7 then 7 / 10
                       else if (t - now E) div 86400000 < 14 then 4 / 10
                       else 1 / 10))"
    by (intro exI [of _ xs] exI [of _ "spoilageRisk L E p"]) simp
qed

theorem mock_outputs_randomness_witness:
  "fst (getDemandForecasts stubLibs envLow (call ''vendor-token'' (Some vendor1) [] [] []) db0) \<noteq>
   fst (getDemandForecasts stubLibs envHigh (call ''vendor-token'' (Some vendor1) [] [] []) db0) \<and>
   (\<exists>f fs. getDemandForecasts stubLibs envLow (call ''vendor-token'' (Some vendor1) [] [] []) db0 =
        (reply 200 (JArr (JObj f # fs)), db0) \<and>
      field f ''demandScore'' = Some (JNum (1 / 10))) \<and>
   (\<exists>xs e. getSpoilageRisks stubLibs envLow (call ''vendor-token'' (Some vendor1) [] [] []) db0 =
        (reply 200 (JArr xs), db0) \<and> JObj e \<in> set xs \<and>
      field e ''productId'' = Some (JStr productId1) \<and>
      field e ''daysUntilExpiry'' = Some (JNum 4) \<and>
      field e ''riskScore'' = Some (JNum (7 / 10)))"
proof -
  let ?req = "call ''vendor-token'' (Some vendor1) [] [] []"
  have env: "envLow\<lparr>rand := drawsHigh\<rparr> = envHigh" by (simp add: envLow_def envHigh_def)
  have h: "headerUserId ?req = Some vendor1" by (simp add: headerUserId_def call_def)
  have d: "rand envLow 0 = 1 / 10" "rand envLow 0 \<noteq> drawsHigh 0" "now envLow = 1735689600000"
    by (simp_all add: envLow_def drawsLow_def drawsHigh_def)
  have c: "castObjectId stubLibs vendor1 = Some vendor1" by simp
  have p: "product1 \<in> set (products db0)" "field product1 ''seller'' = Some (JStr vendor1)"
    "field product1 ''status'' = Some (JStr ''available'')" "''available'' \<noteq> ''sold''"
    "field product1 ''expiryEstimate'' = Some (JDate 1736035200000)"
    "field product1 ''_id'' = Some (JStr productId1)"
    by (simp_all add: db0_def field_def product1_def)
  note t = mock_outputs_randomness [where L = stubLibs and E = envLow and r' = drawsHigh and s = db0
      and req = ?req and h = vendor1 and seller = vendor1 and p = product1 and st = "''available''"
      and t = 1736035200000]
  from t [THEN conjunct1, rule_format, OF h] d(1,2)
  have 1: "\<exists>f fs. getDemandForecasts stubLibs envLow ?req db0 = (reply 200 (JArr (JObj f # fs)), db0) \<and>
      field f ''demandScore'' = Some (JNum (1 / 10))"
    and 2: "fst (getDemandForecasts stubLibs envLow ?req db0) \<noteq> fst (getDemandForecasts stubLibs envHigh ?req db0)"
    by (auto simp: env)
  from t [THEN conjunct2, THEN conjunct2, rule_format] h c p d(3)
  have 3: "\<exists>xs e. getSpoilageRisks stubLibs envLow ?req db0 = (reply 200 (JArr xs), db0) \<and> JObj e \<in> set xs \<and>
      field e ''productId'' = Some (JStr productId1) \<and>
      field e ''daysUntilExpiry'' = Some (JNum 4) \<and>
      field e ''riskScore'' = Some (JNum (7 / 10))"
    by simp
  from 2 1 3 show ?thesis by (intro conjI)
qed

end
